theory Spec2Isabelle
  imports Main "HOL-Library.Word"
begin

section \<open>Strings\<close>

text \<open>
  A JavaScript string is a sequence of UTF-16 code units; \<open>length\<close>, \<open>substring\<close>,
  \<open>lastIndexOf\<close> and \<open>trim\<close> all count code units. \<open>ascii\<close> writes an ASCII literal.
\<close>

type_synonym js_string = "16 word list"

definition ascii :: "string \<Rightarrow> js_string" where
  "ascii s = map (\<lambda>c. of_nat (of_char c)) s"

text \<open>
  \<open>String.prototype.trim\<close> strips the code points of WhiteSpace and LineTerminator
  (ECMA-262) from both ends: TAB, LF, VT, FF, CR, SP, NBSP, the Unicode space
  separators, LS, PS and the byte order mark.
\<close>

definition isWhiteSpace :: "16 word \<Rightarrow> bool" where
  "isWhiteSpace c \<longleftrightarrow>
     c \<in> set [0x0009, 0x000A, 0x000B, 0x000C, 0x000D, 0x0020, 0x00A0, 0x1680,
               0x2000, 0x2001, 0x2002, 0x2003, 0x2004, 0x2005, 0x2006, 0x2007,
               0x2008, 0x2009, 0x200A, 0x2028, 0x2029, 0x202F, 0x205F, 0x3000, 0xFEFF]"

definition trim :: "js_string \<Rightarrow> js_string" where
  "trim s = rev (dropWhile isWhiteSpace (rev (dropWhile isWhiteSpace s)))"

text \<open>\<open>xs.lastIndexOf(c)\<close> for a one-unit needle: the greatest index holding \<open>c\<close>, or \<open>-1\<close>.\<close>

fun lastIndexOf :: "'a list \<Rightarrow> 'a \<Rightarrow> int" where
  "lastIndexOf [] c = - 1"
| "lastIndexOf (x # xs) c =
     (let r = lastIndexOf xs c
      in if 0 \<le> r then r + 1 else if x = c then 0 else - 1)"

text \<open>\<open>s.substring(0, n)\<close>: a negative end is clamped to 0, one past the end to the length.\<close>

definition substring0 :: "js_string \<Rightarrow> int \<Rightarrow> js_string" where
  "substring0 s n = take (nat n) s"

definition SPACE :: "16 word" where
  "SPACE = 0x20"

definition ELLIPSIS :: js_string where
  "ELLIPSIS = ascii ''...''"

section \<open>Title generation\<close>

text \<open>
  \<open>ConversationStorageManager.generateTitle\<close>. Nothing in the body can throw on a
  string, so the \<open>catch\<close> branch (the fallback title) is unreachable and the model is the
  \<open>try\<close> body.
\<close>

definition maxLength :: nat where
  "maxLength = 50"

definition generateTitle :: "js_string \<Rightarrow> js_string" where
  "generateTitle messageText =
     (let cleanText = trim messageText
      in if length cleanText \<le> maxLength then cleanText
         else
           let truncated = substring0 cleanText (int maxLength);
               lastSpaceIndex = lastIndexOf truncated SPACE
           in if 0 < lastSpaceIndex then substring0 truncated lastSpaceIndex @ ELLIPSIS
              else truncated @ ELLIPSIS)"

section \<open>Data model\<close>

text \<open>
  The timestamps of the records are ISO-8601 strings made by \<open>Date.toISOString\<close> and
  read back by \<open>new Date(s)\<close>. A timestamp is represented by the instant it denotes, in
  milliseconds since the epoch; the two conversions are then the identity.
\<close>

type_synonym iso_time = int

record LocalMessage =
  m_id :: js_string
  m_text :: js_string
  m_isUser :: bool
  m_timestamp :: iso_time
  m_conversationId :: js_string

record LocalConversation =
  c_id :: js_string
  c_userId :: js_string
  c_title :: "js_string option"
  c_messages :: "LocalMessage list"
  c_createdAt :: iso_time
  c_updatedAt :: iso_time
  c_synced :: bool
  c_messageCount :: int
  c_lastMessageAt :: iso_time

record ConversationData =
  conversations :: "LocalConversation list"
  cd_lastCleanup :: iso_time
  cd_version :: js_string

text \<open>
  The argument of \<open>addMessage\<close>, \<open>Omit<LocalMessage, 'id' | 'conversationId'>\<close>. Its
  timestamp is tested for truthiness; \<open>None\<close> is a falsy one (the empty string).
\<close>

record NewMessage =
  n_text :: js_string
  n_isUser :: bool
  n_timestamp :: "iso_time option"

record LocalSession =
  s_id :: js_string
  s_userId :: js_string
  s_userAgent :: js_string
  s_loginAt :: iso_time
  s_logoutAt :: "iso_time option"
  s_durationSeconds :: "int option"
  s_synced :: bool
  s_createdAt :: iso_time
  s_updatedAt :: iso_time

record LocalSessionData =
  sessions :: "LocalSession list"
  sd_lastCleanup :: iso_time
  sd_version :: js_string

text \<open>
  \<open>Partial<LocalSession>\<close>: every property may be left out (\<open>None\<close>). The two optional
  properties of \<open>LocalSession\<close> may also be supplied with the value \<open>undefined\<close>
  (\<open>Some None\<close>), which an object spread copies like any other value.
\<close>

record SessionUpdates =
  u_id :: "js_string option"
  u_userId :: "js_string option"
  u_userAgent :: "js_string option"
  u_loginAt :: "iso_time option"
  u_logoutAt :: "iso_time option option"
  u_durationSeconds :: "int option option"
  u_synced :: "bool option"
  u_createdAt :: "iso_time option"
  u_updatedAt :: "iso_time option"

section \<open>The keyed local store\<close>

text \<open>
  What \<open>localStorage.getItem(STORAGE_KEY)\<close> returns and what \<open>JSON.parse\<close> makes of it.
  \<open>JSON.stringify\<close> and \<open>JSON.parse\<close> are taken to be inverse on documents, so a stored
  text that denotes a document of the interface type is represented by that document.
  A text that parses to a current-version object of another shape is not represented:
  the cast \<open>const data: ConversationData = JSON.parse(stored)\<close> is unchecked.
\<close>

datatype 'd stored =
    NoItem       \<comment> \<open>the key is absent: \<open>getItem\<close> returns \<open>null\<close>\<close>
  | EmptyText    \<comment> \<open>the empty string, falsy like \<open>null\<close>\<close>
  | NotJson      \<comment> \<open>\<open>JSON.parse\<close> throws a SyntaxError\<close>
  | JsonNull     \<comment> \<open>the text \<open>null\<close>: reading \<open>data.version\<close> throws a TypeError\<close>
  | JsonForeign  \<comment> \<open>another JSON value, whose \<open>version\<close> is not the schema version\<close>
  | JsonDoc 'd   \<comment> \<open>the text of a document\<close>

datatype js_error = SyntaxError | TypeError | QuotaExceededError

text \<open>
  The storage under one key: the item, and the number of \<open>setItem\<close> calls made on it
  (a history variable, to state that an operation does not write).
\<close>

record 'd localStorage =
  item :: "'d stored"
  setItemCalls :: nat

text \<open>
  The local time zone of the browser, as ECMA-262 sees it: the offset from UTC, in
  milliseconds, in force at an instant (\<open>LocalTZA(t, true)\<close>), and the offset by which a
  local time is read back as an instant (\<open>LocalTZA(t, false)\<close>). Both are given by the
  host, and they change at a daylight-saving transition.
\<close>

record timezone =
  offsetAtInstant :: "int \<Rightarrow> int"
  offsetAtLocal :: "int \<Rightarrow> int"

definition LocalTime :: "timezone \<Rightarrow> iso_time \<Rightarrow> int" where
  "LocalTime z t = t + offsetAtInstant z t"

definition UTC_of :: "timezone \<Rightarrow> int \<Rightarrow> iso_time" where
  "UTC_of z t = t - offsetAtLocal z t"

text \<open>
  What one manager operation reads from its environment: the clock at the three places
  where \<open>new Date()\<close> is evaluated (in \<open>createEmptyData\<close> under \<open>getData\<close>, in the
  operation's own body, in \<open>saveData\<close>), the result of \<open>crypto.randomUUID()\<close>, whether
  \<open>localStorage.setItem\<close> accepts the text or throws (quota exceeded), and the local
  time zone.
\<close>

record env =
  readAt :: iso_time
  now :: iso_time
  writeAt :: iso_time
  uuid :: js_string
  quotaOk :: bool
  zone :: timezone

definition setItem :: "env \<Rightarrow> 'd \<Rightarrow> 'd localStorage \<Rightarrow> js_error + 'd localStorage" where
  "setItem e text ls =
     (if quotaOk e then Inr (ls\<lparr>item := JsonDoc text, setItemCalls := Suc (setItemCalls ls)\<rparr>)
      else Inl QuotaExceededError)"

text \<open>A \<open>setItem\<close> call that throws has still been made.\<close>

definition setItem_failed :: "'d localStorage \<Rightarrow> 'd localStorage" where
  "setItem_failed ls = ls\<lparr>setItemCalls := Suc (setItemCalls ls)\<rparr>"

definition SCHEMA_VERSION :: js_string where
  "SCHEMA_VERSION = ascii ''1.0.0''"

subsection \<open>ConversationStorageManager: getData, saveData\<close>

definition CSM_createEmptyData :: "iso_time \<Rightarrow> ConversationData" where
  "CSM_createEmptyData t = \<lparr>conversations = [], cd_lastCleanup = t, cd_version = SCHEMA_VERSION\<rparr>"

definition CSM_migrateData :: "iso_time \<Rightarrow> ConversationData stored \<Rightarrow> ConversationData" where
  "CSM_migrateData t oldData = CSM_createEmptyData t"

text \<open>The \<open>try\<close> block of \<open>getData\<close>; \<open>Inl\<close> is an exception thrown inside it.\<close>

definition CSM_getData_try :: "iso_time \<Rightarrow> ConversationData stored \<Rightarrow> js_error + ConversationData" where
  "CSM_getData_try t stored =
     (case stored of
        NoItem \<Rightarrow> Inr (CSM_createEmptyData t)
      | EmptyText \<Rightarrow> Inr (CSM_createEmptyData t)
      | NotJson \<Rightarrow> Inl SyntaxError
      | JsonNull \<Rightarrow> Inl TypeError
      | JsonForeign \<Rightarrow> Inr (CSM_migrateData t stored)
      | JsonDoc data \<Rightarrow>
          if cd_version data \<noteq> SCHEMA_VERSION then Inr (CSM_migrateData t stored)
          else Inr data)"

text \<open>\<open>getData\<close> with its \<open>catch\<close>; \<open>Inl\<close> would be an exception that leaves the method.\<close>

definition CSM_getData :: "iso_time \<Rightarrow> ConversationData localStorage \<Rightarrow> js_error + ConversationData" where
  "CSM_getData t ls =
     (case CSM_getData_try t (item ls) of
        Inl error \<Rightarrow> Inr (CSM_createEmptyData t)
      | Inr data \<Rightarrow> Inr data)"

definition CSM_saveData ::
  "env \<Rightarrow> ConversationData \<Rightarrow> ConversationData localStorage \<Rightarrow> bool \<times> ConversationData localStorage" where
  "CSM_saveData e data ls =
     (let data = data\<lparr>cd_version := SCHEMA_VERSION\<rparr>;
          data = data\<lparr>cd_lastCleanup := writeAt e\<rparr>
      in case setItem e data ls of
           Inr ls' \<Rightarrow> (True, ls')
         | Inl error \<Rightarrow> (False, setItem_failed ls))"

subsection \<open>LocalStorageManager: getData, saveData\<close>

definition LSM_createEmptyData :: "iso_time \<Rightarrow> LocalSessionData" where
  "LSM_createEmptyData t = \<lparr>sessions = [], sd_lastCleanup = t, sd_version = SCHEMA_VERSION\<rparr>"

definition LSM_migrateData :: "iso_time \<Rightarrow> LocalSessionData stored \<Rightarrow> LocalSessionData" where
  "LSM_migrateData t oldData = LSM_createEmptyData t"

definition LSM_getData_try :: "iso_time \<Rightarrow> LocalSessionData stored \<Rightarrow> js_error + LocalSessionData" where
  "LSM_getData_try t stored =
     (case stored of
        NoItem \<Rightarrow> Inr (LSM_createEmptyData t)
      | EmptyText \<Rightarrow> Inr (LSM_createEmptyData t)
      | NotJson \<Rightarrow> Inl SyntaxError
      | JsonNull \<Rightarrow> Inl TypeError
      | JsonForeign \<Rightarrow> Inr (LSM_migrateData t stored)
      | JsonDoc data \<Rightarrow>
          if sd_version data \<noteq> SCHEMA_VERSION then Inr (LSM_migrateData t stored)
          else Inr data)"

definition LSM_getData :: "iso_time \<Rightarrow> LocalSessionData localStorage \<Rightarrow> js_error + LocalSessionData" where
  "LSM_getData t ls =
     (case LSM_getData_try t (item ls) of
        Inl error \<Rightarrow> Inr (LSM_createEmptyData t)
      | Inr data \<Rightarrow> Inr data)"

definition LSM_saveData ::
  "env \<Rightarrow> LocalSessionData \<Rightarrow> LocalSessionData localStorage \<Rightarrow> bool \<times> LocalSessionData localStorage" where
  "LSM_saveData e data ls =
     (let data = data\<lparr>sd_version := SCHEMA_VERSION\<rparr>;
          data = data\<lparr>sd_lastCleanup := writeAt e\<rparr>
      in case setItem e data ls of
           Inr ls' \<Rightarrow> (True, ls')
         | Inl error \<Rightarrow> (False, setItem_failed ls))"

section \<open>Array helpers\<close>

text \<open>\<open>xs.findIndex(p)\<close>: the first index whose element satisfies \<open>p\<close>, or \<open>-1\<close>.\<close>

fun findIndex :: "('a \<Rightarrow> bool) \<Rightarrow> 'a list \<Rightarrow> int" where
  "findIndex p [] = - 1"
| "findIndex p (x # xs) =
     (if p x then 0 else let r = findIndex p xs in if r = - 1 then - 1 else r + 1)"

text \<open>
  \<open>xs.find(p)\<close> returns a reference to the first matching element, and an assignment to
  a property of the result changes that element of the array: \<open>update_first p f xs\<close> is
  the array after the assignments \<open>f\<close>.
\<close>

fun update_first :: "('a \<Rightarrow> bool) \<Rightarrow> ('a \<Rightarrow> 'a) \<Rightarrow> 'a list \<Rightarrow> 'a list" where
  "update_first p f [] = []"
| "update_first p f (x # xs) = (if p x then f x # xs else x # update_first p f xs)"

text \<open>\<open>xs.slice(n)\<close> and \<open>xs.slice(-n)\<close> for \<open>n \<ge> 0\<close>.\<close>

definition slice_from :: "nat \<Rightarrow> 'a list \<Rightarrow> 'a list" where
  "slice_from n xs = drop n xs"

definition slice_last :: "nat \<Rightarrow> 'a list \<Rightarrow> 'a list" where
  "slice_last n xs = drop (length xs - n) xs"

section \<open>ConversationStorageManager\<close>

definition MAX_CONVERSATIONS :: nat where
  "MAX_CONVERSATIONS = 50"

definition MAX_MESSAGES_PER_CONVERSATION :: nat where
  "MAX_MESSAGES_PER_CONVERSATION = 100"

definition CLEANUP_DAYS :: int where
  "CLEANUP_DAYS = 30"

text \<open>
  \<open>d.setDate(d.getDate() - days)\<close> works on the local calendar (ECMA-262,
  \<open>Date.prototype.setDate\<close>): the instant is turned into local time, the day number of
  the local date is lowered by \<open>days\<close> with the time within the day kept (\<open>MakeDay\<close>,
  \<open>MakeDate\<close>: on the local time scale that is \<open>days\<close> times 86 400 000 ms), and the
  local time obtained is read back as an instant with the offset in force there.
\<close>

definition msPerDay :: int where
  "msPerDay = 86400000"

definition setDate_back :: "timezone \<Rightarrow> iso_time \<Rightarrow> int \<Rightarrow> iso_time" where
  "setDate_back z d days = UTC_of z (LocalTime z d - days * msPerDay)"

text \<open>
  The cutoff of the two cleanups, \<open>new Date()\<close> moved back by \<open>CLEANUP_DAYS\<close>, and the
  difference between the UTC offset now and the UTC offset at the cutoff.
\<close>

definition cutoffDate :: "env \<Rightarrow> iso_time" where
  "cutoffDate e = setDate_back (zone e) (now e) CLEANUP_DAYS"


text \<open>The object literal of \<open>createConversation\<close> and the title given to it.\<close>

definition newConversation :: "env \<Rightarrow> js_string \<Rightarrow> LocalMessage option \<Rightarrow> LocalConversation" where
  "newConversation e userId initialMessage =
     (let conversation =
            \<lparr>c_id = uuid e,
             c_userId = userId,
             c_title = None,
             c_messages = (case initialMessage of Some m \<Rightarrow> [m] | None \<Rightarrow> []),
             c_createdAt = now e,
             c_updatedAt = now e,
             c_synced = False,
             c_messageCount = (case initialMessage of Some m \<Rightarrow> 1 | None \<Rightarrow> 0),
             c_lastMessageAt = (case initialMessage of Some m \<Rightarrow> m_timestamp m | None \<Rightarrow> now e)\<rparr>
      in case initialMessage of
           Some m \<Rightarrow>
             if m_isUser m then conversation\<lparr>c_title := Some (generateTitle (m_text m))\<rparr>
             else conversation
         | None \<Rightarrow> conversation)"

text \<open>The per-user cap of \<open>createConversation\<close>, applied to the array after \<open>unshift\<close>.\<close>

definition limitConversations :: "js_string \<Rightarrow> LocalConversation list \<Rightarrow> LocalConversation list" where
  "limitConversations userId convs =
     (let userConversations = filter (\<lambda>c. c_userId c = userId) convs
      in if length userConversations > MAX_CONVERSATIONS then
           let conversationsToRemove = slice_from MAX_CONVERSATIONS userConversations
           in filter (\<lambda>c. \<not> list_ex (\<lambda>toRemove. c_id toRemove = c_id c) conversationsToRemove) convs
         else convs)"

definition CSM_createConversation ::
  "env \<Rightarrow> js_string \<Rightarrow> LocalMessage option \<Rightarrow> ConversationData localStorage
   \<Rightarrow> LocalConversation option \<times> ConversationData localStorage" where
  "CSM_createConversation e userId initialMessage ls =
     (case CSM_getData (readAt e) ls of
        Inl error \<Rightarrow> (None, ls)
      | Inr data \<Rightarrow>
          let conversation = newConversation e userId initialMessage;
              data = data\<lparr>conversations := conversation # conversations data\<rparr>;
              data = data\<lparr>conversations := limitConversations userId (conversations data)\<rparr>;
              (saved, ls') = CSM_saveData e data ls
          in if saved then (Some conversation, ls') else (None, ls'))"

text \<open>The message object that \<open>addMessage\<close> builds from its argument.\<close>

definition newMessage :: "env \<Rightarrow> js_string \<Rightarrow> NewMessage \<Rightarrow> LocalMessage" where
  "newMessage e conversationId message =
     \<lparr>m_id = uuid e,
      m_text = n_text message,
      m_isUser = n_isUser message,
      m_timestamp = (case n_timestamp message of Some t \<Rightarrow> t | None \<Rightarrow> now e),
      m_conversationId = conversationId\<rparr>"

text \<open>
  The assignments that \<open>addMessage\<close> makes to the conversation it found: push, count,
  timestamps, the cap on the messages, the title.
\<close>

definition pushMessage :: "iso_time \<Rightarrow> LocalMessage \<Rightarrow> LocalConversation \<Rightarrow> LocalConversation" where
  "pushMessage t message conversation =
     (let conversation = conversation\<lparr>c_messages := c_messages conversation @ [message]\<rparr>;
          conversation = conversation\<lparr>c_messageCount := int (length (c_messages conversation))\<rparr>;
          conversation = conversation\<lparr>c_updatedAt := t\<rparr>;
          conversation = conversation\<lparr>c_lastMessageAt := m_timestamp message\<rparr>;
          conversation =
            (if length (c_messages conversation) > MAX_MESSAGES_PER_CONVERSATION then
               let conversation = conversation\<lparr>c_messages :=
                     slice_last MAX_MESSAGES_PER_CONVERSATION (c_messages conversation)\<rparr>
               in conversation\<lparr>c_messageCount := int (length (c_messages conversation))\<rparr>
             else conversation)
      in if (c_title conversation = None \<or> c_title conversation = Some []) \<and> m_isUser message
         then conversation\<lparr>c_title := Some (generateTitle (m_text message))\<rparr>
         else conversation)"

definition CSM_addMessage ::
  "env \<Rightarrow> js_string \<Rightarrow> NewMessage \<Rightarrow> ConversationData localStorage
   \<Rightarrow> bool \<times> ConversationData localStorage" where
  "CSM_addMessage e conversationId message ls =
     (case CSM_getData (readAt e) ls of
        Inl error \<Rightarrow> (False, ls)
      | Inr data \<Rightarrow>
          let conversationIndex = findIndex (\<lambda>c. c_id c = conversationId) (conversations data)
          in if conversationIndex = - 1 then (False, ls)
             else
               let conversation = conversations data ! nat conversationIndex;
                   conversation = pushMessage (now e) (newMessage e conversationId message) conversation;
                   data = data\<lparr>conversations :=
                            (conversations data)[nat conversationIndex := conversation]\<rparr>
               in CSM_saveData e data ls)"

definition CSM_markSynced ::
  "env \<Rightarrow> js_string \<Rightarrow> ConversationData localStorage \<Rightarrow> bool \<times> ConversationData localStorage" where
  "CSM_markSynced e conversationId ls =
     (case CSM_getData (readAt e) ls of
        Inl error \<Rightarrow> (False, ls)
      | Inr data \<Rightarrow>
          (case find (\<lambda>c. c_id c = conversationId) (conversations data) of
             None \<Rightarrow> (False, ls)
           | Some conversation \<Rightarrow>
               let data = data\<lparr>conversations :=
                            update_first (\<lambda>c. c_id c = conversationId)
                              (\<lambda>c. c\<lparr>c_synced := True, c_updatedAt := now e\<rparr>)
                              (conversations data)\<rparr>
               in CSM_saveData e data ls))"

definition CSM_deleteConversation ::
  "env \<Rightarrow> js_string \<Rightarrow> ConversationData localStorage \<Rightarrow> bool \<times> ConversationData localStorage" where
  "CSM_deleteConversation e conversationId ls =
     (case CSM_getData (readAt e) ls of
        Inl error \<Rightarrow> (False, ls)
      | Inr data \<Rightarrow>
          let initialLength = length (conversations data);
              data = data\<lparr>conversations :=
                       filter (\<lambda>c. c_id c \<noteq> conversationId) (conversations data)\<rparr>
          in if length (conversations data) < initialLength then CSM_saveData e data ls
             else (False, ls))"

text \<open>The result of \<open>saveData\<close> is dropped: the count is returned whether or not the write succeeded.\<close>

definition CSM_cleanupOldConversations ::
  "env \<Rightarrow> ConversationData localStorage \<Rightarrow> int \<times> ConversationData localStorage" where
  "CSM_cleanupOldConversations e ls =
     (case CSM_getData (readAt e) ls of
        Inl error \<Rightarrow> (0, ls)
      | Inr data \<Rightarrow>
          let cutoffDate = setDate_back (zone e) (now e) CLEANUP_DAYS;
              initialCount = int (length (conversations data));
              data = data\<lparr>conversations :=
                       filter (\<lambda>conversation. c_createdAt conversation \<ge> cutoffDate) (conversations data)\<rparr>;
              removedCount = initialCount - int (length (conversations data))
          in if removedCount > 0 then (removedCount, snd (CSM_saveData e data ls))
             else (removedCount, ls))"

section \<open>LocalStorageManager\<close>

text \<open>The object spread \<open>{...session, ...updates, updatedAt: now}\<close>.\<close>

definition spread :: "'a \<Rightarrow> 'a option \<Rightarrow> 'a" where
  "spread old new = (case new of None \<Rightarrow> old | Some v \<Rightarrow> v)"

definition merge_session :: "LocalSession \<Rightarrow> SessionUpdates \<Rightarrow> iso_time \<Rightarrow> LocalSession" where
  "merge_session session updates t =
     \<lparr>s_id = spread (s_id session) (u_id updates),
      s_userId = spread (s_userId session) (u_userId updates),
      s_userAgent = spread (s_userAgent session) (u_userAgent updates),
      s_loginAt = spread (s_loginAt session) (u_loginAt updates),
      s_logoutAt = spread (s_logoutAt session) (u_logoutAt updates),
      s_durationSeconds = spread (s_durationSeconds session) (u_durationSeconds updates),
      s_synced = spread (s_synced session) (u_synced updates),
      s_createdAt = spread (s_createdAt session) (u_createdAt updates),
      s_updatedAt = t\<rparr>"

definition LSM_updateSession ::
  "env \<Rightarrow> js_string \<Rightarrow> SessionUpdates \<Rightarrow> LocalSessionData localStorage
   \<Rightarrow> bool \<times> LocalSessionData localStorage" where
  "LSM_updateSession e sessionId updates ls =
     (case LSM_getData (readAt e) ls of
        Inl error \<Rightarrow> (False, ls)
      | Inr data \<Rightarrow>
          let sessionIndex = findIndex (\<lambda>s. s_id s = sessionId) (sessions data)
          in if sessionIndex = - 1 then (False, ls)
             else
               let data = data\<lparr>sessions :=
                     (sessions data)[nat sessionIndex :=
                        merge_session (sessions data ! nat sessionIndex) updates (now e)]\<rparr>
               in LSM_saveData e data ls)"

definition no_updates :: SessionUpdates where
  "no_updates =
     \<lparr>u_id = None, u_userId = None, u_userAgent = None, u_loginAt = None, u_logoutAt = None,
      u_durationSeconds = None, u_synced = None, u_createdAt = None, u_updatedAt = None\<rparr>"

definition LSM_markSynced ::
  "env \<Rightarrow> js_string \<Rightarrow> LocalSessionData localStorage \<Rightarrow> bool \<times> LocalSessionData localStorage" where
  "LSM_markSynced e sessionId ls = LSM_updateSession e sessionId (no_updates\<lparr>u_synced := Some True\<rparr>) ls"


definition LSM_getAllSessions :: "iso_time \<Rightarrow> LocalSessionData localStorage \<Rightarrow> LocalSession list" where
  "LSM_getAllSessions t ls =
     (case LSM_getData t ls of
        Inl error \<Rightarrow> []
      | Inr data \<Rightarrow> sessions data)"

section \<open>Remote synchronisation\<close>

text \<open>
  The remote database is an opaque service. An \<open>insert\<close> either resolves, with or
  without a \<open>PostgrestError\<close>, or throws; every request made is logged in \<open>db_calls\<close>.
\<close>

record PostgrestError =
  pe_code :: js_string
  pe_message :: "js_string option"

datatype insert_outcome = Resolved "PostgrestError option" | Thrown

datatype db_request =
    Insert_conversations js_string js_string "js_string option" iso_time iso_time int
  | Insert_conversation_messages js_string js_string js_string bool iso_time
  | Insert_user_sessions js_string js_string iso_time "iso_time option" "int option"

record 'd world =
  storage :: "'d localStorage"
  db_calls :: "db_request list"

text \<open>
  What a synchronisation pass reads from its environment: the answer of the remote
  service to a request, given the number of requests made before it, and the
  environment of the storage operation that follows that many requests.
\<close>

record sync_env =
  insert_result :: "nat \<Rightarrow> db_request \<Rightarrow> insert_outcome"
  storage_env :: "nat \<Rightarrow> env"

record SyncCounts =
  syncedCount :: int
  failedCount :: int

record DBResult =
  r_success :: bool
  r_data :: "SyncCounts option"
  r_error :: "js_error option"

text \<open>\<open>s.includes(t)\<close>: \<open>t\<close> occurs in \<open>s\<close> at some index.\<close>

definition js_includes :: "js_string \<Rightarrow> js_string \<Rightarrow> bool" where
  "js_includes s t = list_ex (\<lambda>i. take (length t) (drop i s) = t) [0..<Suc (length s)]"

text \<open>\<open>error.code === 'PGRST205' || error.message?.includes('Could not find the table')\<close>\<close>

definition tableNotFound :: "PostgrestError \<Rightarrow> bool" where
  "tableNotFound error \<longleftrightarrow>
     pe_code error = ascii ''PGRST205'' \<or>
     (case pe_message error of
        None \<Rightarrow> False
      | Some m \<Rightarrow> js_includes m (ascii ''Could not find the table''))"

definition conversation_row :: "LocalConversation \<Rightarrow> db_request" where
  "conversation_row conversation =
     Insert_conversations (c_id conversation) (c_userId conversation) (c_title conversation)
       (c_createdAt conversation) (c_updatedAt conversation) (c_messageCount conversation)"

definition message_row :: "LocalMessage \<Rightarrow> db_request" where
  "message_row message =
     Insert_conversation_messages (m_id message) (m_conversationId message) (m_text message)
       (m_isUser message) (m_timestamp message)"

definition session_row :: "LocalSession \<Rightarrow> db_request" where
  "session_row session =
     Insert_user_sessions (s_userId session) (s_userAgent session) (s_loginAt session)
       (s_logoutAt session) (s_durationSeconds session)"

text \<open>
  The inner loop over the messages of a conversation: each message is inserted; an
  error or an exception is logged to the console and changes nothing else.
\<close>

fun syncMessages :: "LocalMessage list \<Rightarrow> db_request list \<Rightarrow> db_request list" where
  "syncMessages [] calls = calls"
| "syncMessages (message # rest) calls = syncMessages rest (calls @ [message_row message])"

fun syncConversationsLoop ::
  "sync_env \<Rightarrow> LocalConversation list \<Rightarrow> ConversationData world \<times> int \<times> int
   \<Rightarrow> ConversationData world \<times> int \<times> int" where
  "syncConversationsLoop se [] acc = acc"
| "syncConversationsLoop se (conversation # rest) (w, synced, failed) =
     (let outcome = insert_result se (length (db_calls w)) (conversation_row conversation);
          w = w\<lparr>db_calls := db_calls w @ [conversation_row conversation]\<rparr>
      in case outcome of
           Thrown \<Rightarrow> syncConversationsLoop se rest (w, synced, failed + 1)
         | Resolved (Some error) \<Rightarrow>
             if tableNotFound error then
               let w = w\<lparr>storage := snd (CSM_markSynced (storage_env se (length (db_calls w)))
                                            (c_id conversation) (storage w))\<rparr>
               in syncConversationsLoop se rest (w, synced + 1, failed)
             else syncConversationsLoop se rest (w, synced, failed + 1)
         | Resolved None \<Rightarrow>
             let w = w\<lparr>db_calls := syncMessages (c_messages conversation) (db_calls w)\<rparr>;
                 w = w\<lparr>storage := snd (CSM_markSynced (storage_env se (length (db_calls w)))
                                          (c_id conversation) (storage w))\<rparr>
             in syncConversationsLoop se rest (w, synced + 1, failed))"

definition syncConversationsToDB ::
  "sync_env \<Rightarrow> ConversationData world \<Rightarrow> DBResult \<times> ConversationData world" where
  "syncConversationsToDB se w =
     (case CSM_getData (readAt (storage_env se (length (db_calls w)))) (storage w) of
        Inl err \<Rightarrow> (\<lparr>r_success = False, r_data = None, r_error = Some err\<rparr>, w)
      | Inr d \<Rightarrow>
          let allConversations = conversations d;
              unsyncedConversations = filter (\<lambda>conversation. \<not> c_synced conversation) allConversations
          in if length unsyncedConversations = 0
             then (\<lparr>r_success = True, r_data = Some \<lparr>syncedCount = 0, failedCount = 0\<rparr>, r_error = None\<rparr>, w)
             else
               let (w', synced, failed) = syncConversationsLoop se unsyncedConversations (w, 0, 0)
               in (\<lparr>r_success = True, r_data = Some \<lparr>syncedCount = synced, failedCount = failed\<rparr>,
                    r_error = None\<rparr>, w'))"

fun syncSessionsLoop ::
  "sync_env \<Rightarrow> LocalSession list \<Rightarrow> LocalSessionData world \<times> int \<times> int
   \<Rightarrow> LocalSessionData world \<times> int \<times> int" where
  "syncSessionsLoop se [] acc = acc"
| "syncSessionsLoop se (session # rest) (w, synced, failed) =
     (let outcome = insert_result se (length (db_calls w)) (session_row session);
          w = w\<lparr>db_calls := db_calls w @ [session_row session]\<rparr>
      in case outcome of
           Thrown \<Rightarrow> syncSessionsLoop se rest (w, synced, failed + 1)
         | Resolved (Some error) \<Rightarrow>
             if tableNotFound error then
               let w = w\<lparr>storage := snd (LSM_markSynced (storage_env se (length (db_calls w)))
                                            (s_id session) (storage w))\<rparr>
               in syncSessionsLoop se rest (w, synced + 1, failed)
             else syncSessionsLoop se rest (w, synced, failed + 1)
         | Resolved None \<Rightarrow>
             let w = w\<lparr>storage := snd (LSM_markSynced (storage_env se (length (db_calls w)))
                                          (s_id session) (storage w))\<rparr>
             in syncSessionsLoop se rest (w, synced + 1, failed))"

definition syncLocalSessionsToDB ::
  "sync_env \<Rightarrow> LocalSessionData world \<Rightarrow> DBResult \<times> LocalSessionData world" where
  "syncLocalSessionsToDB se w =
     (let allSessions = LSM_getAllSessions (readAt (storage_env se (length (db_calls w)))) (storage w);
          unsyncedSessions = filter (\<lambda>session. \<not> s_synced session) allSessions
      in if length unsyncedSessions = 0
         then (\<lparr>r_success = True, r_data = Some \<lparr>syncedCount = 0, failedCount = 0\<rparr>, r_error = None\<rparr>, w)
         else
           let (w', synced, failed) = syncSessionsLoop se unsyncedSessions (w, 0, 0)
           in (\<lparr>r_success = True, r_data = Some \<lparr>syncedCount = synced, failedCount = failed\<rparr>,
                r_error = None\<rparr>, w'))"

section \<open>Stored documents\<close>

text \<open>The document that a read of the store yields, and the invariant of the data model.\<close>

definition CSM_read :: "iso_time \<Rightarrow> ConversationData localStorage \<Rightarrow> ConversationData" where
  "CSM_read t ls = (case CSM_getData t ls of Inr data \<Rightarrow> data | Inl error \<Rightarrow> CSM_createEmptyData t)"

definition LSM_read :: "iso_time \<Rightarrow> LocalSessionData localStorage \<Rightarrow> LocalSessionData" where
  "LSM_read t ls = (case LSM_getData t ls of Inr data \<Rightarrow> data | Inl error \<Rightarrow> LSM_createEmptyData t)"

definition count_ok :: "LocalConversation \<Rightarrow> bool" where
  "count_ok c \<longleftrightarrow> c_messageCount c = int (length (c_messages c))"

definition counts_ok :: "ConversationData localStorage \<Rightarrow> bool" where
  "counts_ok ls \<longleftrightarrow> list_all count_ok (conversations (CSM_read 0 ls))"

section \<open>Example data\<close>

text \<open>Concrete environments, documents and stores, on which the theorems are instantiated.\<close>

definition fixed_zone :: "int \<Rightarrow> timezone" where
  "fixed_zone offset = \<lparr>offsetAtInstant = (\<lambda>t. offset), offsetAtLocal = (\<lambda>t. offset)\<rparr>"


definition ex_env :: env where
  "ex_env = \<lparr>readAt = 3455999999, now = 3456000000, writeAt = 3456000001,
             uuid = ascii ''id-new'', quotaOk = True, zone = fixed_zone 0\<rparr>"

definition ex_message :: "nat \<Rightarrow> LocalMessage" where
  "ex_message i =
     \<lparr>m_id = ascii ''m'' @ [of_nat i], m_text = ascii ''Hola'', m_isUser = True,
      m_timestamp = 432000000 + int i, m_conversationId = ascii ''c-full''\<rparr>"

definition ex_conversation :: "js_string \<Rightarrow> js_string \<Rightarrow> iso_time \<Rightarrow> LocalConversation" where
  "ex_conversation cid uid created =
     \<lparr>c_id = cid, c_userId = uid, c_title = None, c_messages = [],
      c_createdAt = created, c_updatedAt = created, c_synced = True,
      c_messageCount = 0, c_lastMessageAt = created\<rparr>"

definition ex_doc :: ConversationData where
  "ex_doc =
     \<lparr>conversations =
        [ex_conversation (ascii ''c2'') (ascii ''user-2'') 1728000000,
         ex_conversation (ascii ''c1'') (ascii ''user-1'') 432000000],
      cd_lastCleanup = 0, cd_version = SCHEMA_VERSION\<rparr>"

definition ex_store :: "ConversationData localStorage" where
  "ex_store = \<lparr>item = JsonDoc ex_doc, setItemCalls = 0\<rparr>"

definition ex_crowded_doc :: ConversationData where
  "ex_crowded_doc =
     \<lparr>conversations =
        map (\<lambda>i. ex_conversation (ascii ''c'' @ [of_nat i]) (ascii ''user-1'') (int i)) (rev [0..<50]) @
        [ex_conversation (ascii ''other'') (ascii ''user-2'') 7],
      cd_lastCleanup = 0, cd_version = SCHEMA_VERSION\<rparr>"

definition ex_crowded_store :: "ConversationData localStorage" where
  "ex_crowded_store = \<lparr>item = JsonDoc ex_crowded_doc, setItemCalls = 0\<rparr>"

definition ex_full_doc :: ConversationData where
  "ex_full_doc =
     \<lparr>conversations =
        [ex_conversation (ascii ''c2'') (ascii ''user-2'') 1728000000,
         (ex_conversation (ascii ''c-full'') (ascii ''user-1'') 432000000)
           \<lparr>c_messages := map ex_message [0..<100], c_messageCount := 100\<rparr>],
      cd_lastCleanup = 0, cd_version = SCHEMA_VERSION\<rparr>"

definition ex_full_store :: "ConversationData localStorage" where
  "ex_full_store = \<lparr>item = JsonDoc ex_full_doc, setItemCalls = 0\<rparr>"

definition ex_new_message :: NewMessage where
  "ex_new_message = \<lparr>n_text = ascii ''Gracias'', n_isUser = False, n_timestamp = None\<rparr>"

definition ex_session :: "js_string \<Rightarrow> js_string \<Rightarrow> iso_time \<Rightarrow> LocalSession" where
  "ex_session sid uid created =
     \<lparr>s_id = sid, s_userId = uid, s_userAgent = ascii ''Test Browser/1.0'', s_loginAt = created,
      s_logoutAt = None, s_durationSeconds = None, s_synced = True,
      s_createdAt = created, s_updatedAt = created\<rparr>"

definition ex_session_doc :: LocalSessionData where
  "ex_session_doc =
     \<lparr>sessions =
        [ex_session (ascii ''s2'') (ascii ''user-1'') 1728000000,
         ex_session (ascii ''s1'') (ascii ''user-1'') 432000000],
      sd_lastCleanup = 0, sd_version = SCHEMA_VERSION\<rparr>"

definition ex_session_store :: "LocalSessionData localStorage" where
  "ex_session_store = \<lparr>item = JsonDoc ex_session_doc, setItemCalls = 0\<rparr>"

definition ex_updates :: SessionUpdates where
  "ex_updates = no_updates\<lparr>u_id := Some (ascii ''renamed''), u_synced := Some False,
                            u_createdAt := Some 1, u_updatedAt := Some 2\<rparr>"



definition ex_sync_env :: sync_env where
  "ex_sync_env = \<lparr>insert_result = (\<lambda>n request. Thrown), storage_env = (\<lambda>n. ex_env)\<rparr>"

section \<open>Facts about strings\<close>

lemma lastIndexOf_range: "- 1 \<le> lastIndexOf xs c \<and> lastIndexOf xs c < int (length xs)"
  by (induction xs) (auto simp: Let_def)

lemma lastIndexOf_absent: "c \<notin> set xs \<Longrightarrow> lastIndexOf xs c = - 1"
  by (induction xs) (auto simp: Let_def)

lemma lastIndexOf_present: "c \<in> set xs \<Longrightarrow> 0 \<le> lastIndexOf xs c"
  by (induction xs) (auto simp: Let_def)

lemma lastIndexOf_last:
  "i < length xs \<Longrightarrow> xs ! i = c \<Longrightarrow> (\<forall>j. i < j \<and> j < length xs \<longrightarrow> xs ! j \<noteq> c)
   \<Longrightarrow> lastIndexOf xs c = int i"
proof (induction xs arbitrary: i)
  case Nil
  then show ?case by simp
next
  case (Cons x xs)
  show ?case
  proof (cases i)
    case 0
    have "c \<notin> set xs"
    proof
      assume "c \<in> set xs"
      then obtain k where k: "k < length xs" "xs ! k = c"
        by (auto simp: in_set_conv_nth)
      with Cons.prems(3) 0 have "(x # xs) ! Suc k \<noteq> c"
        by (metis Suc_less_eq length_Cons zero_less_Suc)
      with k show False by simp
    qed
    with Cons.prems 0 show ?thesis
      by (simp add: lastIndexOf_absent)
  next
    case (Suc k)
    have "\<forall>j. k < j \<and> j < length xs \<longrightarrow> xs ! j \<noteq> c"
    proof (intro allI impI)
      fix j assume "k < j \<and> j < length xs"
      with Cons.prems(3) Suc have "(x # xs) ! Suc j \<noteq> c"
        by (metis Suc_less_eq length_Cons)
      then show "xs ! j \<noteq> c" by simp
    qed
    with Cons.prems Suc have "lastIndexOf xs c = int k"
      by (intro Cons.IH) auto
    then show ?thesis using Suc by simp
  qed
qed

lemma trim_prefix_of_dropWhile:
  "dropWhile isWhiteSpace s = trim s @ rev (takeWhile isWhiteSpace (rev (dropWhile isWhiteSpace s)))"
  by (simp only: trim_def rev_append [symmetric] takeWhile_dropWhile_id rev_rev_ident)

lemma trim_no_leading_space: "trim s \<noteq> [] \<Longrightarrow> \<not> isWhiteSpace (hd (trim s))"
proof -
  assume ne: "trim s \<noteq> []"
  let ?u = "dropWhile isWhiteSpace s"
  have "?u = [] \<Longrightarrow> trim s = []"
    unfolding trim_def by (metis dropWhile.simps(1) rev.simps(1))
  with ne have "?u \<noteq> []" by blast
  then have "\<not> isWhiteSpace (hd ?u)" by (rule hd_dropWhile)
  moreover have "hd ?u = hd (trim s)"
    using ne trim_prefix_of_dropWhile [of s] by (metis hd_append2)
  ultimately show ?thesis by simp
qed

lemma SPACE_isWhiteSpace: "isWhiteSpace SPACE"
  by (simp add: isWhiteSpace_def SPACE_def)

lemma length_ELLIPSIS: "length ELLIPSIS = 3"
  by (simp add: ELLIPSIS_def ascii_def)

section \<open>Facts about the store and the array helpers\<close>

lemma CSM_getData_Inr: "CSM_getData t ls = Inr (CSM_read t ls)"
  by (simp add: CSM_read_def CSM_getData_def split: sum.splits)

lemma LSM_getData_Inr: "LSM_getData t ls = Inr (LSM_read t ls)"
  by (simp add: LSM_read_def LSM_getData_def split: sum.splits)

lemma CSM_read_cases:
  "CSM_read t ls =
     (case item ls of
        JsonDoc d \<Rightarrow> if cd_version d = SCHEMA_VERSION then d else CSM_createEmptyData t
      | _ \<Rightarrow> CSM_createEmptyData t)"
  by (simp add: CSM_read_def CSM_getData_def CSM_getData_try_def CSM_migrateData_def
      split: stored.splits)

lemma LSM_read_cases:
  "LSM_read t ls =
     (case item ls of
        JsonDoc d \<Rightarrow> if sd_version d = SCHEMA_VERSION then d else LSM_createEmptyData t
      | _ \<Rightarrow> LSM_createEmptyData t)"
  by (simp add: LSM_read_def LSM_getData_def LSM_getData_try_def LSM_migrateData_def
      split: stored.splits)

lemma conversations_read: "conversations (CSM_read t ls) = conversations (CSM_read t' ls)"
  by (simp add: CSM_read_cases CSM_createEmptyData_def split: stored.splits)


lemma CSM_saveData_eq:
  "CSM_saveData e d ls =
     (if quotaOk e
      then (True, ls\<lparr>item := JsonDoc (d\<lparr>cd_version := SCHEMA_VERSION, cd_lastCleanup := writeAt e\<rparr>),
                     setItemCalls := Suc (setItemCalls ls)\<rparr>)
      else (False, ls\<lparr>setItemCalls := Suc (setItemCalls ls)\<rparr>))"
  by (simp add: CSM_saveData_def setItem_def setItem_failed_def)

lemma LSM_saveData_eq:
  "LSM_saveData e d ls =
     (if quotaOk e
      then (True, ls\<lparr>item := JsonDoc (d\<lparr>sd_version := SCHEMA_VERSION, sd_lastCleanup := writeAt e\<rparr>),
                     setItemCalls := Suc (setItemCalls ls)\<rparr>)
      else (False, ls\<lparr>setItemCalls := Suc (setItemCalls ls)\<rparr>))"
  by (simp add: LSM_saveData_def setItem_def setItem_failed_def)

lemma CSM_read_saveData:
  "CSM_read t (snd (CSM_saveData e d ls)) =
     (if quotaOk e then d\<lparr>cd_version := SCHEMA_VERSION, cd_lastCleanup := writeAt e\<rparr>
      else CSM_read t ls)"
  by (simp add: CSM_saveData_eq CSM_read_cases)


lemma findIndex_range: "- 1 \<le> findIndex p xs \<and> findIndex p xs < int (length xs)"
  by (induction xs) (auto simp: Let_def)

lemma findIndex_none: "findIndex p xs = - 1 \<longleftrightarrow> (\<forall>x\<in>set xs. \<not> p x)"
proof (induction xs)
  case Nil
  show ?case by simp
next
  case (Cons x xs)
  have "- 1 \<le> findIndex p xs" by (simp add: findIndex_range)
  then have "findIndex p xs + 1 \<noteq> - 1" by arith
  with Cons show ?case by (auto simp: Let_def)
qed

lemma findIndex_first:
  "i < length xs \<Longrightarrow> p (xs ! i) \<Longrightarrow> (\<forall>j<i. \<not> p (xs ! j)) \<Longrightarrow> findIndex p xs = int i"
proof (induction xs arbitrary: i)
  case Nil
  then show ?case by simp
next
  case (Cons x xs)
  show ?case
  proof (cases i)
    case 0
    with Cons.prems show ?thesis by simp
  next
    case (Suc k)
    from Cons.prems(3) Suc have nx: "\<not> p x" by auto
    have "\<forall>j<k. \<not> p (xs ! j)"
    proof (intro allI impI)
      fix j assume "j < k"
      then have "Suc j < i" using Suc by simp
      with Cons.prems(3) have "\<not> p ((x # xs) ! Suc j)" by blast
      then show "\<not> p (xs ! j)" by simp
    qed
    with Cons.prems Suc have "findIndex p xs = int k"
      by (intro Cons.IH) auto
    with nx Suc show ?thesis by (simp add: Let_def)
  qed
qed

lemma findIndex_found:
  "findIndex p xs \<noteq> - 1 \<Longrightarrow>
   nat (findIndex p xs) < length xs \<and> p (xs ! nat (findIndex p xs)) \<and> 0 \<le> findIndex p xs"
proof (induction xs)
  case Nil
  then show ?case by simp
next
  case (Cons x xs)
  show ?case
  proof (cases "p x")
    case True
    then show ?thesis by simp
  next
    case False
    with Cons.prems have ne: "findIndex p xs \<noteq> - 1" by (auto simp: Let_def split: if_splits)
    from Cons.IH [OF ne] False ne show ?thesis
      by (simp add: Let_def nat_add_distrib)
  qed
qed

lemma find_None_ids: "find p xs = None \<longleftrightarrow> (\<forall>x\<in>set xs. \<not> p x)"
  by (auto simp: find_None_iff)

section \<open>Facts about the managers\<close>

lemma removed_pred:
  "(\<not> list_ex (\<lambda>toRemove. c_id toRemove = c_id c) rs) = (c_id c \<notin> c_id ` set rs)"
  by (auto simp: list_ex_iff) (metis imageI)

lemma limitConversations_eq:
  "limitConversations u convs =
     (if 50 < length (filter (\<lambda>c. c_userId c = u) convs)
      then filter (\<lambda>c. c_id c \<notin> c_id ` set (drop 50 (filter (\<lambda>c. c_userId c = u) convs))) convs
      else convs)"
  by (simp add: limitConversations_def MAX_CONVERSATIONS_def slice_from_def removed_pred Let_def)

lemma filter_removed_tail:
  "filter (\<lambda>c. c_id c \<notin> c_id ` set (drop n xs)) xs =
   filter (\<lambda>c. c_id c \<notin> c_id ` set (drop n xs)) (take n xs)"
proof -
  have "filter (\<lambda>c. c_id c \<notin> c_id ` set (drop n xs)) (drop n xs) = []"
    by (auto simp: filter_empty_conv)
  then have "filter (\<lambda>c. c_id c \<notin> c_id ` set (drop n xs)) (take n xs @ drop n xs) =
             filter (\<lambda>c. c_id c \<notin> c_id ` set (drop n xs)) (take n xs)"
    by (simp only: filter_append append_Nil2)
  then show ?thesis by simp
qed

lemma limitConversations_mine:
  "filter (\<lambda>c. c_userId c = u) (limitConversations u convs) =
     (if 50 < length (filter (\<lambda>c. c_userId c = u) convs)
      then filter (\<lambda>c. c_id c \<notin> c_id ` set (drop 50 (filter (\<lambda>c. c_userId c = u) convs)))
             (take 50 (filter (\<lambda>c. c_userId c = u) convs))
      else filter (\<lambda>c. c_userId c = u) convs)"
proof -
  let ?U = "filter (\<lambda>c. c_userId c = u) convs"
  let ?Q = "\<lambda>c. c_id c \<notin> c_id ` set (drop 50 ?U)"
  have "filter (\<lambda>c. c_userId c = u) (filter ?Q convs) = filter ?Q ?U"
    by (simp add: conj_commute)
  also have "\<dots> = filter ?Q (take 50 ?U)"
    by (rule filter_removed_tail)
  finally show ?thesis
    by (simp add: limitConversations_eq)
qed

lemma limitConversations_bound:
  "length (filter (\<lambda>c. c_userId c = u) (limitConversations u convs)) \<le> 50"
proof (cases "50 < length (filter (\<lambda>c. c_userId c = u) convs)")
  case True
  let ?U = "filter (\<lambda>c. c_userId c = u) convs"
  have "length (filter (\<lambda>c. c_id c \<notin> c_id ` set (drop 50 ?U)) (take 50 ?U)) \<le> length (take 50 ?U)"
    by (rule length_filter_le)
  with True show ?thesis
    by (simp add: limitConversations_mine)
next
  case False
  then show ?thesis
    by (simp add: limitConversations_mine)
qed

lemma limitConversations_keeps_newest:
  assumes "distinct (map c_id convs)"
  shows "filter (\<lambda>c. c_userId c = u) (limitConversations u convs) =
         take 50 (filter (\<lambda>c. c_userId c = u) convs)"
proof (cases "50 < length (filter (\<lambda>c. c_userId c = u) convs)")
  case True
  let ?U = "filter (\<lambda>c. c_userId c = u) convs"
  from assms have "distinct (map c_id ?U)"
    by (simp add: distinct_map_filter)
  then have "distinct (map c_id (take 50 ?U @ drop 50 ?U))" by simp
  then have "c_id ` set (take 50 ?U) \<inter> c_id ` set (drop 50 ?U) = {}"
    by (simp only: map_append distinct_append set_map)
  then have "\<forall>c\<in>set (take 50 ?U). c_id c \<notin> c_id ` set (drop 50 ?U)"
    by blast
  then have "filter (\<lambda>c. c_id c \<notin> c_id ` set (drop 50 ?U)) (take 50 ?U) = take 50 ?U"
    by (simp only: filter_True)
  with True show ?thesis
    by (simp add: limitConversations_mine)
next
  case False
  then show ?thesis
    by (simp add: limitConversations_mine)
qed

lemma limitConversations_others:
  assumes "\<forall>c\<in>set convs. c_userId c \<noteq> u \<longrightarrow>
             c_id c \<notin> c_id ` set (drop 50 (filter (\<lambda>c. c_userId c = u) convs))"
  shows "filter (\<lambda>c. c_userId c \<noteq> u) (limitConversations u convs) =
         filter (\<lambda>c. c_userId c \<noteq> u) convs"
proof (cases "50 < length (filter (\<lambda>c. c_userId c = u) convs)")
  case True
  let ?R = "drop 50 (filter (\<lambda>c. c_userId c = u) convs)"
  have "filter (\<lambda>c. c_userId c \<noteq> u) (filter (\<lambda>c. c_id c \<notin> c_id ` set ?R) convs) =
        filter (\<lambda>c. c_id c \<notin> c_id ` set ?R \<and> c_userId c \<noteq> u) convs"
    by (simp add: conj_commute)
  also have "\<dots> = filter (\<lambda>c. c_userId c \<noteq> u) convs"
    using assms by (intro filter_cong) auto
  finally show ?thesis using True
    by (simp add: limitConversations_eq)
next
  case False
  then show ?thesis
    by (simp add: limitConversations_eq)
qed

lemma limitConversations_distinct:
  "distinct (map c_id convs) \<Longrightarrow> distinct (map c_id (limitConversations u convs))"
  by (simp add: limitConversations_eq distinct_map_filter)

lemma limitConversations_others_new:
  assumes d: "distinct (map c_id old)" and cu: "c_userId c = u"
  shows "filter (\<lambda>x. c_userId x \<noteq> u) (limitConversations u (c # old)) =
         filter (\<lambda>x. c_userId x \<noteq> u) old"
proof -
  let ?R = "drop 50 (filter (\<lambda>x. c_userId x = u) (c # old))"
  have R: "set ?R \<subseteq> {x \<in> set old. c_userId x = u}"
  proof -
    have eq: "?R = drop 49 (filter (\<lambda>x. c_userId x = u) old)"
      using cu by simp
    have "set ?R \<subseteq> set (filter (\<lambda>x. c_userId x = u) old)"
      unfolding eq by (rule set_drop_subset)
    then show ?thesis by auto
  qed
  from d have inj: "inj_on c_id (set old)"
    by (simp add: distinct_map)
  have "\<forall>x\<in>set (c # old). c_userId x \<noteq> u \<longrightarrow> c_id x \<notin> c_id ` set ?R"
  proof (intro ballI impI)
    fix x assume x: "x \<in> set (c # old)" and xu: "c_userId x \<noteq> u"
    with cu have xo: "x \<in> set old" by auto
    show "c_id x \<notin> c_id ` set ?R"
    proof
      assume "c_id x \<in> c_id ` set ?R"
      then obtain r where r: "r \<in> set ?R" "c_id x = c_id r" by auto
      with R have ro: "r \<in> set old" "c_userId r = u" by auto
      with inj xo r have "x = r" by (auto dest: inj_onD)
      with ro xu show False by simp
    qed
  qed
  then have "filter (\<lambda>x. c_userId x \<noteq> u) (limitConversations u (c # old)) =
             filter (\<lambda>x. c_userId x \<noteq> u) (c # old)"
    by (rule limitConversations_others)
  with cu show ?thesis by simp
qed

lemma newConversation_fields:
  "c_userId (newConversation e u im) = u"
  "c_id (newConversation e u im) = uuid e"
  "c_synced (newConversation e u im) = False"
  "c_createdAt (newConversation e u im) = now e"
  by (simp_all add: newConversation_def Let_def split: option.splits)

lemma newConversation_count: "count_ok (newConversation e u im)"
  by (simp add: newConversation_def count_ok_def Let_def split: option.splits)

lemma CSM_createConversation_eq:
  "CSM_createConversation e u im ls =
     (if quotaOk e
      then (Some (newConversation e u im),
            ls\<lparr>item := JsonDoc
                  ((CSM_read (readAt e) ls)
                     \<lparr>conversations :=
                        limitConversations u (newConversation e u im # conversations (CSM_read (readAt e) ls)),
                      cd_version := SCHEMA_VERSION, cd_lastCleanup := writeAt e\<rparr>),
               setItemCalls := Suc (setItemCalls ls)\<rparr>)
      else (None, ls\<lparr>setItemCalls := Suc (setItemCalls ls)\<rparr>))"
  by (simp add: CSM_createConversation_def CSM_getData_Inr CSM_saveData_eq Let_def)

lemma CSM_read_setItemCalls [simp]: "CSM_read t (ls\<lparr>setItemCalls := n\<rparr>) = CSM_read t ls"
  by (simp add: CSM_read_cases)

lemma CSM_read_written:
  "cd_version d = SCHEMA_VERSION \<Longrightarrow> CSM_read t (ls\<lparr>item := JsonDoc d, setItemCalls := n\<rparr>) = d"
  by (simp add: CSM_read_cases)

lemma pushMessage_messages:
  "c_messages (pushMessage t m c) =
     (if 100 \<le> length (c_messages c) then drop (length (c_messages c) - 99) (c_messages c) @ [m]
      else c_messages c @ [m])"
  by (simp add: pushMessage_def MAX_MESSAGES_PER_CONVERSATION_def slice_last_def Let_def)

lemma pushMessage_suffix:
  "c_messages (pushMessage t m c) = slice_last (min 100 (Suc (length (c_messages c)))) (c_messages c @ [m])"
  by (simp add: pushMessage_messages slice_last_def min_def)

lemma pushMessage_count:
  "c_messageCount (pushMessage t m c) = int (length (c_messages (pushMessage t m c)))"
  by (simp add: pushMessage_def MAX_MESSAGES_PER_CONVERSATION_def slice_last_def Let_def)

lemma pushMessage_id: "c_id (pushMessage t m c) = c_id c" "c_userId (pushMessage t m c) = c_userId c"
  by (simp_all add: pushMessage_def Let_def)

lemma CSM_addMessage_eq:
  "CSM_addMessage e cid msg ls =
     (if findIndex (\<lambda>c. c_id c = cid) (conversations (CSM_read (readAt e) ls)) = - 1 then (False, ls)
      else CSM_saveData e
             ((CSM_read (readAt e) ls)\<lparr>conversations :=
                (conversations (CSM_read (readAt e) ls))
                  [nat (findIndex (\<lambda>c. c_id c = cid) (conversations (CSM_read (readAt e) ls))) :=
                     pushMessage (now e) (newMessage e cid msg)
                       (conversations (CSM_read (readAt e) ls) !
                          nat (findIndex (\<lambda>c. c_id c = cid) (conversations (CSM_read (readAt e) ls))))]\<rparr>)
             ls)"
  by (simp add: CSM_addMessage_def CSM_getData_Inr Let_def)

lemma list_all_update_first:
  "list_all P xs \<Longrightarrow> (\<And>x. P x \<Longrightarrow> P (f x)) \<Longrightarrow> list_all P (update_first p f xs)"
  by (induction xs) auto

lemma list_all_limitConversations:
  "list_all P convs \<Longrightarrow> list_all P (limitConversations u convs)"
  by (auto simp: limitConversations_eq list_all_iff)

lemma list_all_list_update:
  "list_all P xs \<Longrightarrow> P v \<Longrightarrow> list_all P (xs[i := v])"
  by (induction xs arbitrary: i) (auto split: nat.splits)

lemma counts_ok_iff: "counts_ok ls \<longleftrightarrow> list_all count_ok (conversations (CSM_read t ls))"
  by (simp add: counts_ok_def conversations_read [of 0 ls t])

lemma counts_ok_saveData:
  "counts_ok ls \<Longrightarrow> list_all count_ok (conversations d) \<Longrightarrow> counts_ok (snd (CSM_saveData e d ls))"
  by (simp add: counts_ok_def CSM_read_saveData)

lemma createConversation_counts: "counts_ok ls \<Longrightarrow> counts_ok (snd (CSM_createConversation e u im ls))"
proof -
  assume a: "counts_ok ls"
  then have "list_all count_ok (conversations (CSM_read (readAt e) ls))"
    using counts_ok_iff [of ls "readAt e"] by simp
  then have "list_all count_ok
      (limitConversations u (newConversation e u im # conversations (CSM_read (readAt e) ls)))"
    by (intro list_all_limitConversations) (simp add: newConversation_count)
  with a show ?thesis
    by (simp add: CSM_createConversation_eq counts_ok_def CSM_read_cases)
qed

lemma addMessage_counts: "counts_ok ls \<Longrightarrow> counts_ok (snd (CSM_addMessage e cid msg ls))"
proof -
  assume a: "counts_ok ls"
  then have "list_all count_ok (conversations (CSM_read (readAt e) ls))"
    using counts_ok_iff [of ls "readAt e"] by simp
  then have "list_all count_ok ((conversations (CSM_read (readAt e) ls))[i := pushMessage t m c])"
    for i t m c
    by (intro list_all_list_update) (simp_all add: count_ok_def pushMessage_count)
  with a show ?thesis
    by (simp add: CSM_addMessage_eq counts_ok_saveData)
qed

lemma markSynced_counts: "counts_ok ls \<Longrightarrow> counts_ok (snd (CSM_markSynced e cid ls))"
proof -
  assume a: "counts_ok ls"
  then have "list_all count_ok (conversations (CSM_read (readAt e) ls))"
    using counts_ok_iff [of ls "readAt e"] by simp
  then have "list_all count_ok
      (update_first (\<lambda>c. c_id c = cid) (\<lambda>c. c\<lparr>c_synced := True, c_updatedAt := now e\<rparr>)
         (conversations (CSM_read (readAt e) ls)))"
    by (rule list_all_update_first) (simp add: count_ok_def)
  with a show ?thesis
    by (simp add: CSM_markSynced_def CSM_getData_Inr counts_ok_saveData split: option.splits)
qed

lemma deleteConversation_counts: "counts_ok ls \<Longrightarrow> counts_ok (snd (CSM_deleteConversation e cid ls))"
proof -
  assume a: "counts_ok ls"
  then have "list_all count_ok (conversations (CSM_read (readAt e) ls))"
    using counts_ok_iff [of ls "readAt e"] by simp
  then have "list_all count_ok (filter (\<lambda>c. c_id c \<noteq> cid) (conversations (CSM_read (readAt e) ls)))"
    by (simp add: list_all_iff)
  with a show ?thesis
    by (simp add: CSM_deleteConversation_def CSM_getData_Inr counts_ok_saveData Let_def)
qed

lemma cleanupOldConversations_counts:
  "counts_ok ls \<Longrightarrow> counts_ok (snd (CSM_cleanupOldConversations e ls))"
proof -
  assume a: "counts_ok ls"
  then have "list_all count_ok (conversations (CSM_read (readAt e) ls))"
    using counts_ok_iff [of ls "readAt e"] by simp
  then have "list_all count_ok (filter P (conversations (CSM_read (readAt e) ls)))" for P
    by (simp add: list_all_iff)
  with a show ?thesis
    by (simp add: CSM_cleanupOldConversations_def CSM_getData_Inr counts_ok_saveData Let_def)
qed




















lemma ex_crowded_read: "CSM_read t ex_crowded_store = ex_crowded_doc"
  by (simp add: CSM_read_cases ex_crowded_store_def ex_crowded_doc_def)

lemma ex_read: "CSM_read t ex_store = ex_doc"
  by (simp add: CSM_read_cases ex_store_def ex_doc_def)

lemma ex_full_read: "CSM_read t ex_full_store = ex_full_doc"
  by (simp add: CSM_read_cases ex_full_store_def ex_full_doc_def)

lemma ex_session_read: "LSM_read t ex_session_store = ex_session_doc"
  by (simp add: LSM_read_cases ex_session_store_def ex_session_doc_def)

lemma ex_quotaOk: "quotaOk ex_env"
  by (simp add: ex_env_def)

section \<open>Claims\<close>

text \<open>
  C1 (as amended). Title generation trims the text. A trimmed text of at most 50 code
  units is the title, verbatim. A longer one is cut to its first 50 units; when a space
  occurs among them the cut moves back to the last such space, otherwise it stays at 50;
  the three-unit marker \<open>...\<close> is appended. In the truncation case the title ends with the
  marker and is at most 53 units long (50 plus the length of the marker).
\<close>

theorem generateTitle_truncates:
  "(length (trim s) \<le> 50 \<longrightarrow> generateTitle s = trim s) \<and>
   (50 < length (trim s) \<longrightarrow>
      (\<forall>i. i < 50 \<and> trim s ! i = SPACE \<and> (\<forall>j. i < j \<and> j < 50 \<longrightarrow> trim s ! j \<noteq> SPACE)
            \<longrightarrow> generateTitle s = take i (trim s) @ ELLIPSIS) \<and>
      ((\<forall>i<50. trim s ! i \<noteq> SPACE) \<longrightarrow> generateTitle s = take 50 (trim s) @ ELLIPSIS) \<and>
      length (generateTitle s) \<le> 53 \<and>
      drop (length (generateTitle s) - 3) (generateTitle s) = ELLIPSIS)"
proof (intro conjI impI allI)
  assume "length (trim s) \<le> 50"
  then show "generateTitle s = trim s"
    by (simp add: generateTitle_def maxLength_def)
next
  let ?t = "trim s"
  let ?tr = "take 50 ?t"
  assume long: "50 < length ?t"
  then have len_tr: "length ?tr = 50" by simp
  have unfold: "generateTitle s =
      (if 0 < lastIndexOf ?tr SPACE then take (nat (lastIndexOf ?tr SPACE)) ?tr @ ELLIPSIS
       else ?tr @ ELLIPSIS)"
    using long by (simp add: generateTitle_def maxLength_def substring0_def Let_def)
  have hd_ok: "?tr ! 0 \<noteq> SPACE"
  proof -
    from long have ne: "?t \<noteq> []" by auto
    then have "\<not> isWhiteSpace (hd ?t)" by (rule trim_no_leading_space)
    moreover have "?tr ! 0 = hd ?t" using ne by (simp add: hd_conv_nth)
    ultimately show ?thesis using SPACE_isWhiteSpace by auto
  qed
  {
    fix i
    assume h: "i < 50 \<and> ?t ! i = SPACE \<and> (\<forall>j. i < j \<and> j < 50 \<longrightarrow> ?t ! j \<noteq> SPACE)"
    then have "lastIndexOf ?tr SPACE = int i"
      using len_tr by (intro lastIndexOf_last) auto
    moreover have "i \<noteq> 0" using h hd_ok by auto
    ultimately show "generateTitle s = take i ?t @ ELLIPSIS"
      using unfold h by (simp add: min_def)
  }
  {
    assume "\<forall>i<50. ?t ! i \<noteq> SPACE"
    then have "SPACE \<notin> set ?tr"
      using len_tr by (auto simp: in_set_conv_nth)
    then have "lastIndexOf ?tr SPACE = - 1" by (rule lastIndexOf_absent)
    then show "generateTitle s = take 50 ?t @ ELLIPSIS"
      using unfold by simp
  }
  have "lastIndexOf ?tr SPACE < 50"
    using lastIndexOf_range [of ?tr SPACE] len_tr by simp
  then show "length (generateTitle s) \<le> 53"
    using unfold len_tr by (auto simp: length_ELLIPSIS)
  show "drop (length (generateTitle s) - 3) (generateTitle s) = ELLIPSIS"
    using unfold by (auto simp: length_ELLIPSIS)
qed

theorem generateTitle_truncates_witness:
  "generateTitle (ascii ''Hola'') = ascii ''Hola'' \<and>
   50 < length (trim (ascii
     ''  Que alimentos son recomendables durante el primer trimestre del embarazo?  '')) \<and>
   generateTitle (ascii
     ''  Que alimentos son recomendables durante el primer trimestre del embarazo?  '') =
     ascii ''Que alimentos son recomendables durante el primer...''"
proof -
  let ?s = "ascii ''  Que alimentos son recomendables durante el primer trimestre del embarazo?  ''"
  have t: "trim ?s =
      ascii ''Que alimentos son recomendables durante el primer trimestre del embarazo?''"
    by (simp add: trim_def ascii_def isWhiteSpace_def)
  have short: "trim (ascii ''Hola'') = ascii ''Hola''"
    by (simp add: trim_def ascii_def isWhiteSpace_def)
  have long: "50 < length (trim ?s)"
    unfolding t by (simp add: ascii_def)
  have cut: "49 < (50::nat) \<and> trim ?s ! 49 = SPACE \<and>
             (\<forall>j. 49 < j \<and> j < 50 \<longrightarrow> trim ?s ! j \<noteq> SPACE)"
    unfolding t by (simp add: ascii_def SPACE_def)
  from generateTitle_truncates [of "ascii ''Hola''"] short
  have "generateTitle (ascii ''Hola'') = ascii ''Hola''"
    by (simp add: ascii_def)
  moreover from generateTitle_truncates [of ?s] long cut
  have "generateTitle ?s = take 49 (trim ?s) @ ELLIPSIS"
    by blast
  then have "generateTitle ?s = ascii ''Que alimentos son recomendables durante el primer...''"
    unfolding t by (simp add: ascii_def ELLIPSIS_def)
  ultimately show ?thesis using long by blast
qed

text \<open>
  C1 as first stated bounds the truncated title by 51 units. The marker is three units
  long: a text of 51 letters and no space is cut to 50 letters and becomes 53 units.
\<close>

theorem generateTitle_51_counterexample:
  "50 < length (trim (replicate 51 0x61)) \<and>
   generateTitle (replicate 51 0x61) = replicate 50 0x61 @ ascii ''...'' \<and>
   \<not> length (generateTitle (replicate 51 0x61)) \<le> 51"
  by code_simp

text \<open>
  C2. Creating a conversation for a user leaves that user with at most 50 conversations
  in the stored document, and the cap removes conversations of that user only. When the
  write succeeds the call returns the new conversation and the user owns at most 50; when
  it fails the call returns \<open>null\<close> and the document is as before. With unique conversation
  identifiers (the invariant of the data model, which the operation preserves when the
  new identifier is fresh) the conversations of every other user are the same afterwards,
  in the same order, and the user keeps the first 50 of the stored order, which is newest
  first: the new conversation and the 49 before it. The oldest excess is what goes.
\<close>

theorem createConversation_cap:
  "(quotaOk e \<longrightarrow>
      fst (CSM_createConversation e userId initialMessage ls) =
        Some (newConversation e userId initialMessage) \<and>
      length (filter (\<lambda>c. c_userId c = userId)
                (conversations (CSM_read t (snd (CSM_createConversation e userId initialMessage ls)))))
        \<le> 50) \<and>
   (\<not> quotaOk e \<longrightarrow>
      fst (CSM_createConversation e userId initialMessage ls) = None \<and>
      conversations (CSM_read t (snd (CSM_createConversation e userId initialMessage ls))) =
        conversations (CSM_read (readAt e) ls)) \<and>
   (distinct (map c_id (conversations (CSM_read (readAt e) ls))) \<longrightarrow>
      filter (\<lambda>c. c_userId c \<noteq> userId)
        (conversations (CSM_read t (snd (CSM_createConversation e userId initialMessage ls)))) =
      filter (\<lambda>c. c_userId c \<noteq> userId) (conversations (CSM_read (readAt e) ls))) \<and>
   (quotaOk e \<and> distinct (map c_id (conversations (CSM_read (readAt e) ls))) \<and>
    uuid e \<notin> c_id ` set (conversations (CSM_read (readAt e) ls)) \<longrightarrow>
      filter (\<lambda>c. c_userId c = userId)
        (conversations (CSM_read t (snd (CSM_createConversation e userId initialMessage ls)))) =
      take 50 (newConversation e userId initialMessage #
               filter (\<lambda>c. c_userId c = userId) (conversations (CSM_read (readAt e) ls))) \<and>
      distinct (map c_id
        (conversations (CSM_read t (snd (CSM_createConversation e userId initialMessage ls))))))"
proof -
  let ?old = "conversations (CSM_read (readAt e) ls)"
  let ?c = "newConversation e userId initialMessage"
  let ?new = "conversations (CSM_read t (snd (CSM_createConversation e userId initialMessage ls)))"
  have ok: "quotaOk e \<Longrightarrow> ?new = limitConversations userId (?c # ?old)"
    by (simp add: CSM_createConversation_eq CSM_read_cases)
  have ko: "\<not> quotaOk e \<Longrightarrow> ?new = ?old"
    by (simp add: CSM_createConversation_eq conversations_read [of t ls "readAt e"])
  have 1: "quotaOk e \<Longrightarrow> length (filter (\<lambda>c. c_userId c = userId) ?new) \<le> 50"
    by (simp add: ok limitConversations_bound)
  have 3: "filter (\<lambda>c. c_userId c \<noteq> userId) ?new = filter (\<lambda>c. c_userId c \<noteq> userId) ?old"
    if "distinct (map c_id ?old)"
  proof (cases "quotaOk e")
    case True
    then show ?thesis
      using that by (simp add: ok limitConversations_others_new newConversation_fields)
  next
    case False
    then show ?thesis by (simp add: ko)
  qed
  have 4: "filter (\<lambda>c. c_userId c = userId) ?new =
           take 50 (?c # filter (\<lambda>c. c_userId c = userId) ?old)"
    if "quotaOk e" "distinct (map c_id ?old)" "uuid e \<notin> c_id ` set ?old"
  proof -
    from that have "distinct (map c_id (?c # ?old))"
      by (simp add: newConversation_fields)
    then have "filter (\<lambda>c. c_userId c = userId) (limitConversations userId (?c # ?old)) =
               take 50 (filter (\<lambda>c. c_userId c = userId) (?c # ?old))"
      by (rule limitConversations_keeps_newest)
    with that show ?thesis
      by (simp add: ok newConversation_fields)
  qed
  have 5: "distinct (map c_id ?new)"
    if "quotaOk e" "distinct (map c_id ?old)" "uuid e \<notin> c_id ` set ?old"
  proof -
    from that have "distinct (map c_id (?c # ?old))"
      by (simp add: newConversation_fields)
    then have "distinct (map c_id (limitConversations userId (?c # ?old)))"
      by (rule limitConversations_distinct)
    with that show ?thesis
      by (simp add: ok)
  qed
  show ?thesis
    using 1 3 4 5 ko by (simp add: CSM_createConversation_eq)
qed

theorem createConversation_cap_witness:
  "quotaOk ex_env \<and>
   distinct (map c_id (conversations (CSM_read (readAt ex_env) ex_crowded_store))) \<and>
   uuid ex_env \<notin> c_id ` set (conversations (CSM_read (readAt ex_env) ex_crowded_store)) \<and>
   length (filter (\<lambda>c. c_userId c = ascii ''user-1'')
     (conversations (CSM_read 0 (snd (CSM_createConversation ex_env (ascii ''user-1'') None
        ex_crowded_store))))) \<le> 50 \<and>
   filter (\<lambda>c. c_userId c \<noteq> ascii ''user-1'')
     (conversations (CSM_read 0 (snd (CSM_createConversation ex_env (ascii ''user-1'') None
        ex_crowded_store)))) =
     [ex_conversation (ascii ''other'') (ascii ''user-2'') 7] \<and>
   map c_id (filter (\<lambda>c. c_userId c = ascii ''user-1'')
     (conversations (CSM_read 0 (snd (CSM_createConversation ex_env (ascii ''user-1'') None
        ex_crowded_store))))) =
     ascii ''id-new'' # map (\<lambda>i. ascii ''c'' @ [of_nat i]) (rev [1..<50])"
proof -
  note T = createConversation_cap [of ex_env "ascii ''user-1''" None ex_crowded_store 0]
  have h2: "distinct (map c_id (conversations (CSM_read (readAt ex_env) ex_crowded_store)))"
    unfolding ex_crowded_read by code_simp
  have h3: "uuid ex_env \<notin> c_id ` set (conversations (CSM_read (readAt ex_env) ex_crowded_store))"
    unfolding ex_crowded_read by code_simp
  have others: "filter (\<lambda>c. c_userId c \<noteq> ascii ''user-1'')
      (conversations (CSM_read (readAt ex_env) ex_crowded_store)) =
      [ex_conversation (ascii ''other'') (ascii ''user-2'') 7]"
    unfolding ex_crowded_read by code_simp
  have mine: "map c_id (take 50 (newConversation ex_env (ascii ''user-1'') None #
      filter (\<lambda>c. c_userId c = ascii ''user-1'')
        (conversations (CSM_read (readAt ex_env) ex_crowded_store)))) =
      ascii ''id-new'' # map (\<lambda>i. ascii ''c'' @ [of_nat i]) (rev [1..<50])"
    unfolding ex_crowded_read by code_simp
  from T ex_quotaOk have a: "length (filter (\<lambda>c. c_userId c = ascii ''user-1'')
     (conversations (CSM_read 0 (snd (CSM_createConversation ex_env (ascii ''user-1'') None
        ex_crowded_store))))) \<le> 50"
    by blast
  from T h2 have b: "filter (\<lambda>c. c_userId c \<noteq> ascii ''user-1'')
     (conversations (CSM_read 0 (snd (CSM_createConversation ex_env (ascii ''user-1'') None
        ex_crowded_store)))) =
     filter (\<lambda>c. c_userId c \<noteq> ascii ''user-1'')
      (conversations (CSM_read (readAt ex_env) ex_crowded_store))"
    by blast
  from T ex_quotaOk h2 h3 have c: "filter (\<lambda>c. c_userId c = ascii ''user-1'')
     (conversations (CSM_read 0 (snd (CSM_createConversation ex_env (ascii ''user-1'') None
        ex_crowded_store)))) =
     take 50 (newConversation ex_env (ascii ''user-1'') None #
      filter (\<lambda>c. c_userId c = ascii ''user-1'')
        (conversations (CSM_read (readAt ex_env) ex_crowded_store)))"
    by blast
  show ?thesis
    using ex_quotaOk h2 h3 a b c others mine by simp
qed

text \<open>
  C3. When the conversation that \<open>addMessage\<close> finds (the first with the identifier)
  already holds 100 or more messages and the write succeeds, the stored conversation
  holds exactly the last 100 of the old messages with the new one appended, that is the
  last 99 old messages followed by the new one: the old order is kept, the new message
  is the last, and the message count is 100. The new message has the text and the
  author flag of the argument, the argument's timestamp (the time of the call when that
  is falsy), the fresh identifier and the identifier of the conversation.
\<close>

theorem addMessage_keeps_last_100:
  assumes "i < length (conversations (CSM_read (readAt e) ls))"
      and "c_id (conversations (CSM_read (readAt e) ls) ! i) = conversationId"
      and "\<forall>j<i. c_id (conversations (CSM_read (readAt e) ls) ! j) \<noteq> conversationId"
      and "100 \<le> length (c_messages (conversations (CSM_read (readAt e) ls) ! i))"
      and "quotaOk e"
  shows "fst (CSM_addMessage e conversationId message ls) = True \<and>
         length (conversations (CSM_read t (snd (CSM_addMessage e conversationId message ls)))) =
           length (conversations (CSM_read (readAt e) ls)) \<and>
         c_messages (conversations (CSM_read t (snd (CSM_addMessage e conversationId message ls))) ! i) =
           slice_last 100 (c_messages (conversations (CSM_read (readAt e) ls) ! i) @
                           [newMessage e conversationId message]) \<and>
         c_messages (conversations (CSM_read t (snd (CSM_addMessage e conversationId message ls))) ! i) =
           drop (length (c_messages (conversations (CSM_read (readAt e) ls) ! i)) - 99)
                (c_messages (conversations (CSM_read (readAt e) ls) ! i)) @
           [newMessage e conversationId message] \<and>
         length (c_messages
           (conversations (CSM_read t (snd (CSM_addMessage e conversationId message ls))) ! i)) = 100 \<and>
         c_messageCount
           (conversations (CSM_read t (snd (CSM_addMessage e conversationId message ls))) ! i) = 100 \<and>
         last (c_messages
           (conversations (CSM_read t (snd (CSM_addMessage e conversationId message ls))) ! i)) =
           \<lparr>m_id = uuid e,
            m_text = n_text message,
            m_isUser = n_isUser message,
            m_timestamp = (case n_timestamp message of Some ts \<Rightarrow> ts | None \<Rightarrow> now e),
            m_conversationId = conversationId\<rparr> \<and>
         newMessage e conversationId message =
           \<lparr>m_id = uuid e,
            m_text = n_text message,
            m_isUser = n_isUser message,
            m_timestamp = (case n_timestamp message of Some ts \<Rightarrow> ts | None \<Rightarrow> now e),
            m_conversationId = conversationId\<rparr>"
proof -
  let ?old = "conversations (CSM_read (readAt e) ls)"
  let ?m = "newMessage e conversationId message"
  have idx: "findIndex (\<lambda>c. c_id c = conversationId) ?old = int i"
    using assms(1-3) by (intro findIndex_first) auto
  have eq: "CSM_addMessage e conversationId message ls =
            CSM_saveData e ((CSM_read (readAt e) ls)\<lparr>conversations :=
              ?old[i := pushMessage (now e) ?m (?old ! i)]\<rparr>) ls"
    by (simp add: CSM_addMessage_eq idx)
  have new: "conversations (CSM_read t (snd (CSM_addMessage e conversationId message ls))) =
             ?old[i := pushMessage (now e) ?m (?old ! i)]"
    using assms(5) by (simp add: eq CSM_read_saveData)
  have ret: "fst (CSM_addMessage e conversationId message ls) = True"
    using assms(5) by (simp add: eq CSM_saveData_eq)
  have msgs: "c_messages (pushMessage (now e) ?m (?old ! i)) =
              drop (length (c_messages (?old ! i)) - 99) (c_messages (?old ! i)) @ [?m]"
    using assms(4) by (simp add: pushMessage_messages)
  have len: "length (c_messages (pushMessage (now e) ?m (?old ! i))) = 100"
    using assms(4) by (simp add: msgs)
  have cnt: "c_messageCount (pushMessage (now e) ?m (?old ! i)) = 100"
    by (simp add: pushMessage_count len)
  have sl: "slice_last 100 (c_messages (?old ! i) @ [?m]) =
            drop (length (c_messages (?old ! i)) - 99) (c_messages (?old ! i)) @ [?m]"
    using assms(4) by (simp add: slice_last_def)
  have nm: "?m =
      \<lparr>m_id = uuid e,
       m_text = n_text message,
       m_isUser = n_isUser message,
       m_timestamp = (case n_timestamp message of Some ts \<Rightarrow> ts | None \<Rightarrow> now e),
       m_conversationId = conversationId\<rparr>"
    by (simp add: newMessage_def)
  have lst: "last (c_messages (pushMessage (now e) ?m (?old ! i))) = ?m"
    by (simp add: msgs)
  have main: "fst (CSM_addMessage e conversationId message ls) = True \<and>
         length (conversations (CSM_read t (snd (CSM_addMessage e conversationId message ls)))) =
           length ?old \<and>
         c_messages (conversations (CSM_read t (snd (CSM_addMessage e conversationId message ls))) ! i) =
           slice_last 100 (c_messages (?old ! i) @ [?m]) \<and>
         c_messages (conversations (CSM_read t (snd (CSM_addMessage e conversationId message ls))) ! i) =
           drop (length (c_messages (?old ! i)) - 99) (c_messages (?old ! i)) @ [?m] \<and>
         length (c_messages
           (conversations (CSM_read t (snd (CSM_addMessage e conversationId message ls))) ! i)) = 100 \<and>
         c_messageCount
           (conversations (CSM_read t (snd (CSM_addMessage e conversationId message ls))) ! i) = 100"
    using assms(1) assms(4) by (simp add: new ret msgs cnt sl)
  have lst': "last (c_messages
      (conversations (CSM_read t (snd (CSM_addMessage e conversationId message ls))) ! i)) = ?m"
    using assms(1) by (simp add: new lst)
  from main lst' [unfolded nm] nm show ?thesis
    by blast
qed

theorem addMessage_keeps_last_100_witness:
  "fst (CSM_addMessage ex_env (ascii ''c-full'') ex_new_message ex_full_store) = True \<and>
   c_messages (conversations (CSM_read 0
     (snd (CSM_addMessage ex_env (ascii ''c-full'') ex_new_message ex_full_store))) ! 1) =
     map ex_message [1..<100] @ [newMessage ex_env (ascii ''c-full'') ex_new_message] \<and>
   length (c_messages (conversations (CSM_read 0
     (snd (CSM_addMessage ex_env (ascii ''c-full'') ex_new_message ex_full_store))) ! 1)) = 100 \<and>
   last (c_messages (conversations (CSM_read 0
     (snd (CSM_addMessage ex_env (ascii ''c-full'') ex_new_message ex_full_store))) ! 1)) =
     \<lparr>m_id = ascii ''id-new'', m_text = ascii ''Gracias'', m_isUser = False,
      m_timestamp = 3456000000, m_conversationId = ascii ''c-full''\<rparr>"
proof -
  have h1: "1 < length (conversations (CSM_read (readAt ex_env) ex_full_store))"
    unfolding ex_full_read by (simp add: ex_full_doc_def)
  have h2: "c_id (conversations (CSM_read (readAt ex_env) ex_full_store) ! 1) = ascii ''c-full''"
    unfolding ex_full_read by (simp add: ex_full_doc_def ex_conversation_def)
  have h3: "\<forall>j<1. c_id (conversations (CSM_read (readAt ex_env) ex_full_store) ! j) \<noteq> ascii ''c-full''"
    unfolding ex_full_read by (simp add: ex_full_doc_def ex_conversation_def ascii_def)
  have old: "c_messages (conversations (CSM_read (readAt ex_env) ex_full_store) ! 1) =
             map ex_message [0..<100]"
    unfolding ex_full_read by (simp add: ex_full_doc_def ex_conversation_def)
  have h4: "100 \<le> length (c_messages (conversations (CSM_read (readAt ex_env) ex_full_store) ! 1))"
    unfolding old by simp
  have cut: "drop (length (map ex_message [0..<100]) - 99) (map ex_message [0..<100]) =
             map ex_message [1..<100]"
    by (simp add: drop_map)
  note T = addMessage_keeps_last_100 [OF h1 h2 h3 h4 ex_quotaOk, of ex_new_message 0]
  from T have a: "fst (CSM_addMessage ex_env (ascii ''c-full'') ex_new_message ex_full_store) = True"
    by blast
  from T have b: "c_messages (conversations (CSM_read 0
      (snd (CSM_addMessage ex_env (ascii ''c-full'') ex_new_message ex_full_store))) ! 1) =
      drop (length (c_messages (conversations (CSM_read (readAt ex_env) ex_full_store) ! 1)) - 99)
        (c_messages (conversations (CSM_read (readAt ex_env) ex_full_store) ! 1)) @
      [newMessage ex_env (ascii ''c-full'') ex_new_message]"
    by blast
  from T have c: "length (c_messages (conversations (CSM_read 0
      (snd (CSM_addMessage ex_env (ascii ''c-full'') ex_new_message ex_full_store))) ! 1)) = 100"
    by blast
  from T have d: "last (c_messages (conversations (CSM_read 0
      (snd (CSM_addMessage ex_env (ascii ''c-full'') ex_new_message ex_full_store))) ! 1)) =
      \<lparr>m_id = uuid ex_env,
       m_text = n_text ex_new_message,
       m_isUser = n_isUser ex_new_message,
       m_timestamp = (case n_timestamp ex_new_message of Some ts \<Rightarrow> ts | None \<Rightarrow> now ex_env),
       m_conversationId = ascii ''c-full''\<rparr>"
    by blast
  have v: "\<lparr>m_id = uuid ex_env,
       m_text = n_text ex_new_message,
       m_isUser = n_isUser ex_new_message,
       m_timestamp = (case n_timestamp ex_new_message of Some ts \<Rightarrow> ts | None \<Rightarrow> now ex_env),
       m_conversationId = ascii ''c-full''\<rparr> =
      \<lparr>m_id = ascii ''id-new'', m_text = ascii ''Gracias'', m_isUser = False,
       m_timestamp = 3456000000, m_conversationId = ascii ''c-full''\<rparr>"
    by (simp add: ex_env_def ex_new_message_def)
  from a b [unfolded old cut] c d [unfolded v] show ?thesis
    by blast
qed

text \<open>
  C4. A successful \<open>saveData\<close> followed by \<open>getData\<close> on the same store returns the
  written document with the version set to the schema version and the cleanup timestamp
  set to the time of the write, and nothing else changed; for both managers.
\<close>

theorem saveData_getData_roundtrip:
  "(quotaOk e \<longrightarrow>
      fst (CSM_saveData e d ls) = True \<and>
      CSM_getData t (snd (CSM_saveData e d ls)) =
        Inr (d\<lparr>cd_version := SCHEMA_VERSION, cd_lastCleanup := writeAt e\<rparr>)) \<and>
   (quotaOk e \<longrightarrow>
      fst (LSM_saveData e sd sls) = True \<and>
      LSM_getData t (snd (LSM_saveData e sd sls)) =
        Inr (sd\<lparr>sd_version := SCHEMA_VERSION, sd_lastCleanup := writeAt e\<rparr>))"
  by (simp add: CSM_getData_Inr LSM_getData_Inr CSM_saveData_eq LSM_saveData_eq
      CSM_read_cases LSM_read_cases)

theorem saveData_getData_roundtrip_witness:
  "quotaOk ex_env \<and>
   CSM_getData 0 (snd (CSM_saveData ex_env (ex_doc\<lparr>cd_version := ascii ''0.9.0''\<rparr>)
                    \<lparr>item = NoItem, setItemCalls = 0\<rparr>)) =
     Inr (ex_doc\<lparr>cd_lastCleanup := 3456000001\<rparr>) \<and>
   LSM_getData 0 (snd (LSM_saveData ex_env ex_session_doc \<lparr>item = NotJson, setItemCalls = 0\<rparr>)) =
     Inr (ex_session_doc\<lparr>sd_lastCleanup := 3456000001\<rparr>)"
  using saveData_getData_roundtrip [of ex_env "ex_doc\<lparr>cd_version := ascii ''0.9.0''\<rparr>"
      "\<lparr>item = NoItem, setItemCalls = 0\<rparr>" 0 ex_session_doc "\<lparr>item = NotJson, setItemCalls = 0\<rparr>"]
  by (simp add: ex_env_def ex_doc_def ex_session_doc_def)

text \<open>
  C5. \<open>getData\<close> never throws. For an absent or empty item, a text that is not JSON, the
  JSON \<open>null\<close>, a JSON value with another version, and a document whose version differs
  from the schema version, it returns the empty document, whose version is the schema
  version. For a document of the schema version it returns that document. For both
  managers.
\<close>

theorem getData_never_throws:
  "(\<exists>d. CSM_getData t ls = Inr d) \<and>
   (item ls \<in> {NoItem, EmptyText, NotJson, JsonNull, JsonForeign} \<longrightarrow>
      CSM_getData t ls = Inr (CSM_createEmptyData t)) \<and>
   (\<forall>d. item ls = JsonDoc d \<and> cd_version d \<noteq> SCHEMA_VERSION \<longrightarrow>
      CSM_getData t ls = Inr (CSM_createEmptyData t)) \<and>
   (\<forall>d. item ls = JsonDoc d \<and> cd_version d = SCHEMA_VERSION \<longrightarrow> CSM_getData t ls = Inr d) \<and>
   conversations (CSM_createEmptyData t) = [] \<and>
   cd_version (CSM_createEmptyData t) = SCHEMA_VERSION \<and>
   (\<exists>d. LSM_getData t sls = Inr d) \<and>
   (item sls \<in> {NoItem, EmptyText, NotJson, JsonNull, JsonForeign} \<longrightarrow>
      LSM_getData t sls = Inr (LSM_createEmptyData t)) \<and>
   (\<forall>d. item sls = JsonDoc d \<and> sd_version d \<noteq> SCHEMA_VERSION \<longrightarrow>
      LSM_getData t sls = Inr (LSM_createEmptyData t)) \<and>
   (\<forall>d. item sls = JsonDoc d \<and> sd_version d = SCHEMA_VERSION \<longrightarrow> LSM_getData t sls = Inr d) \<and>
   sessions (LSM_createEmptyData t) = [] \<and>
   sd_version (LSM_createEmptyData t) = SCHEMA_VERSION"
  by (auto simp: CSM_getData_Inr LSM_getData_Inr CSM_read_cases LSM_read_cases
      CSM_createEmptyData_def LSM_createEmptyData_def)

theorem getData_never_throws_witness:
  "CSM_getData 5 \<lparr>item = JsonDoc (ex_doc\<lparr>cd_version := ascii ''0.9.0''\<rparr>), setItemCalls = 0\<rparr> =
     Inr \<lparr>conversations = [], cd_lastCleanup = 5, cd_version = ascii ''1.0.0''\<rparr> \<and>
   CSM_getData 5 ex_store = Inr ex_doc \<and>
   LSM_getData 5 \<lparr>item = JsonNull, setItemCalls = 0\<rparr> =
     Inr \<lparr>sessions = [], sd_lastCleanup = 5, sd_version = ascii ''1.0.0''\<rparr>"
proof -
  have v: "cd_version (ex_doc\<lparr>cd_version := ascii ''0.9.0''\<rparr>) \<noteq> SCHEMA_VERSION"
    by (simp add: SCHEMA_VERSION_def ascii_def)
  have v': "cd_version ex_doc = SCHEMA_VERSION"
    by (simp add: ex_doc_def)
  from getData_never_throws
    [of 5 "\<lparr>item = JsonDoc (ex_doc\<lparr>cd_version := ascii ''0.9.0''\<rparr>), setItemCalls = 0\<rparr>"
        "\<lparr>item = JsonNull, setItemCalls = 0\<rparr>"] v
  have a: "CSM_getData 5 \<lparr>item = JsonDoc (ex_doc\<lparr>cd_version := ascii ''0.9.0''\<rparr>), setItemCalls = 0\<rparr> =
             Inr (CSM_createEmptyData 5) \<and>
           LSM_getData 5 \<lparr>item = JsonNull, setItemCalls = 0\<rparr> = Inr (LSM_createEmptyData 5)"
    by simp
  from getData_never_throws [of 5 ex_store "\<lparr>item = JsonNull, setItemCalls = 0\<rparr>"] v'
  have b: "CSM_getData 5 ex_store = Inr ex_doc"
    by (simp add: ex_store_def)
  from a b show ?thesis
    by (simp add: CSM_createEmptyData_def LSM_createEmptyData_def SCHEMA_VERSION_def)
qed

text \<open>
  C6. If every conversation of the stored document has a message count equal to the
  length of its message list, the same holds of the stored document after each of
  \<open>createConversation\<close>, \<open>addMessage\<close>, \<open>markSynced\<close>, \<open>deleteConversation\<close> and
  \<open>cleanupOldConversations\<close>.
\<close>

theorem messageCount_invariant:
  "counts_ok ls \<Longrightarrow>
     counts_ok (snd (CSM_createConversation e userId initialMessage ls)) \<and>
     counts_ok (snd (CSM_addMessage e conversationId message ls)) \<and>
     counts_ok (snd (CSM_markSynced e conversationId ls)) \<and>
     counts_ok (snd (CSM_deleteConversation e conversationId ls)) \<and>
     counts_ok (snd (CSM_cleanupOldConversations e ls))"
  by (simp add: createConversation_counts addMessage_counts markSynced_counts
      deleteConversation_counts cleanupOldConversations_counts)

theorem messageCount_invariant_witness:
  "counts_ok ex_full_store \<and>
   counts_ok (snd (CSM_createConversation ex_env (ascii ''user-1'') None ex_full_store)) \<and>
   counts_ok (snd (CSM_addMessage ex_env (ascii ''c-full'') ex_new_message ex_full_store)) \<and>
   counts_ok (snd (CSM_markSynced ex_env (ascii ''c-full'') ex_full_store)) \<and>
   counts_ok (snd (CSM_deleteConversation ex_env (ascii ''c-full'') ex_full_store)) \<and>
   counts_ok (snd (CSM_cleanupOldConversations ex_env ex_full_store))"
proof -
  have h: "counts_ok ex_full_store"
    unfolding counts_ok_def ex_full_read
    by (simp add: ex_full_doc_def ex_conversation_def count_ok_def)
  from messageCount_invariant [OF h, of ex_env "ascii ''user-1''" None "ascii ''c-full''" ex_new_message] h
  show ?thesis by simp
qed

text \<open>
  C7. For an identifier that no record of the stored document has, \<open>markSynced\<close> of the
  conversation manager, and \<open>updateSession\<close> and \<open>markSynced\<close> of the session manager,
  return \<open>false\<close> and leave the storage as it was: the same item and no \<open>setItem\<close> call.
\<close>

theorem markSynced_missing_id:
  "(conversationId \<notin> c_id ` set (conversations (CSM_read (readAt e) ls)) \<longrightarrow>
      CSM_markSynced e conversationId ls = (False, ls)) \<and>
   (sessionId \<notin> s_id ` set (sessions (LSM_read (readAt e) sls)) \<longrightarrow>
      LSM_updateSession e sessionId updates sls = (False, sls) \<and>
      LSM_markSynced e sessionId sls = (False, sls))"
proof (intro conjI impI)
  assume "conversationId \<notin> c_id ` set (conversations (CSM_read (readAt e) ls))"
  then have "find (\<lambda>c. c_id c = conversationId) (conversations (CSM_read (readAt e) ls)) = None"
    by (auto simp: find_None_iff)
  then show "CSM_markSynced e conversationId ls = (False, ls)"
    by (simp add: CSM_markSynced_def CSM_getData_Inr)
next
  assume a: "sessionId \<notin> s_id ` set (sessions (LSM_read (readAt e) sls))"
  then have "findIndex (\<lambda>s. s_id s = sessionId) (sessions (LSM_read (readAt e) sls)) = - 1"
    by (auto simp: findIndex_none)
  then show "LSM_updateSession e sessionId updates sls = (False, sls)" for updates
    by (simp add: LSM_updateSession_def LSM_getData_Inr)
  then show "LSM_markSynced e sessionId sls = (False, sls)"
    by (simp add: LSM_markSynced_def)
qed

theorem markSynced_missing_id_witness:
  "ascii ''nope'' \<notin> c_id ` set (conversations (CSM_read (readAt ex_env) ex_store)) \<and>
   CSM_markSynced ex_env (ascii ''nope'') ex_store = (False, ex_store) \<and>
   ascii ''nope'' \<notin> s_id ` set (sessions (LSM_read (readAt ex_env) ex_session_store)) \<and>
   LSM_updateSession ex_env (ascii ''nope'') ex_updates ex_session_store = (False, ex_session_store) \<and>
   LSM_markSynced ex_env (ascii ''nope'') ex_session_store = (False, ex_session_store)"
proof -
  have h1: "ascii ''nope'' \<notin> c_id ` set (conversations (CSM_read (readAt ex_env) ex_store))"
    unfolding ex_read by (simp add: ex_doc_def ex_conversation_def ascii_def)
  have h2: "ascii ''nope'' \<notin> s_id ` set (sessions (LSM_read (readAt ex_env) ex_session_store))"
    unfolding ex_session_read by (simp add: ex_session_doc_def ex_session_def ascii_def)
  from markSynced_missing_id [of "ascii ''nope''" ex_env ex_store "ascii ''nope''" ex_session_store ex_updates]
    h1 h2
  show ?thesis by simp
qed

text \<open>
  C8. When every record of the stored document is synced, \<open>syncConversationsToDB\<close> and
  \<open>syncLocalSessionsToDB\<close> return success with both counts 0 and leave the world as it
  was: no request to the remote database and no change of the storage.
\<close>

theorem sync_nothing_pending:
  "(list_all c_synced (conversations (CSM_read (readAt (storage_env se (length (db_calls w)))) (storage w)))
      \<longrightarrow> syncConversationsToDB se w =
            (\<lparr>r_success = True, r_data = Some \<lparr>syncedCount = 0, failedCount = 0\<rparr>, r_error = None\<rparr>, w)) \<and>
   (list_all s_synced (sessions (LSM_read (readAt (storage_env se (length (db_calls sw)))) (storage sw)))
      \<longrightarrow> syncLocalSessionsToDB se sw =
            (\<lparr>r_success = True, r_data = Some \<lparr>syncedCount = 0, failedCount = 0\<rparr>, r_error = None\<rparr>, sw))"
proof (intro conjI impI)
  assume "list_all c_synced
    (conversations (CSM_read (readAt (storage_env se (length (db_calls w)))) (storage w)))"
  then have "filter (\<lambda>c. \<not> c_synced c)
    (conversations (CSM_read (readAt (storage_env se (length (db_calls w)))) (storage w))) = []"
    by (simp add: list_all_iff filter_empty_conv)
  then show "syncConversationsToDB se w =
      (\<lparr>r_success = True, r_data = Some \<lparr>syncedCount = 0, failedCount = 0\<rparr>, r_error = None\<rparr>, w)"
    by (simp add: syncConversationsToDB_def CSM_getData_Inr Let_def)
next
  assume "list_all s_synced
    (sessions (LSM_read (readAt (storage_env se (length (db_calls sw)))) (storage sw)))"
  then have "filter (\<lambda>s. \<not> s_synced s)
    (sessions (LSM_read (readAt (storage_env se (length (db_calls sw)))) (storage sw))) = []"
    by (simp add: list_all_iff filter_empty_conv)
  then show "syncLocalSessionsToDB se sw =
      (\<lparr>r_success = True, r_data = Some \<lparr>syncedCount = 0, failedCount = 0\<rparr>, r_error = None\<rparr>, sw)"
    by (simp add: syncLocalSessionsToDB_def LSM_getAllSessions_def LSM_getData_Inr Let_def)
qed

theorem sync_nothing_pending_witness:
  "list_all c_synced (conversations (CSM_read (readAt ex_env) ex_store)) \<and>
   syncConversationsToDB ex_sync_env \<lparr>storage = ex_store, db_calls = []\<rparr> =
     (\<lparr>r_success = True, r_data = Some \<lparr>syncedCount = 0, failedCount = 0\<rparr>, r_error = None\<rparr>,
      \<lparr>storage = ex_store, db_calls = []\<rparr>) \<and>
   list_all s_synced (sessions (LSM_read (readAt ex_env) ex_session_store)) \<and>
   syncLocalSessionsToDB ex_sync_env \<lparr>storage = ex_session_store, db_calls = []\<rparr> =
     (\<lparr>r_success = True, r_data = Some \<lparr>syncedCount = 0, failedCount = 0\<rparr>, r_error = None\<rparr>,
      \<lparr>storage = ex_session_store, db_calls = []\<rparr>)"
proof -
  have h1: "list_all c_synced (conversations (CSM_read (readAt ex_env) ex_store))"
    unfolding ex_read by (simp add: ex_doc_def ex_conversation_def)
  have h2: "list_all s_synced (sessions (LSM_read (readAt ex_env) ex_session_store))"
    unfolding ex_session_read by (simp add: ex_session_doc_def ex_session_def)
  from sync_nothing_pending [of ex_sync_env "\<lparr>storage = ex_store, db_calls = []\<rparr>"
      "\<lparr>storage = ex_session_store, db_calls = []\<rparr>"] h1 h2
  show ?thesis by (simp add: ex_sync_env_def)
qed






end
